theory Spec2Isabelle
  imports
    Main
    "HOL-Library.Word"
    "HOL-Library.Char_ord"
    "HOL-Library.List_Lexorder"
    "HOL-Library.Product_Lexorder"
begin

section \<open>Errors raised by the scripts\<close>

text \<open>
  Every exception the modelled code can raise is a value. \<open>KeyError c\<close> is what pandas
  raises when column \<open>c\<close> is looked up in a frame that does not have it: it is the
  specification's \<open>MissingColumn\<close>. \<open>DateParseError\<close> is the \<open>ValueError\<close> of
  \<open>pandas.to_datetime\<close> on a cell that is not a date, \<open>TypeError\<close> the refusal to add up
  a column that is not numeric, \<open>ValueError\<close> and \<open>AttributeError\<close> what \<open>float\<close> and a
  method call on a value without that method raise, \<open>RuntimeError\<close> the one \<open>Logger.__init__\<close> raises.
\<close>

datatype error =
    KeyError string
  | DateParseError
  | ValueError
  | TypeError
  | AttributeError
  | RuntimeError string

section \<open>Singleton.py: the Logger class\<close>

text \<open>
  The interpreter state the class touches: the class attribute \<open>_instance\<close> (\<open>None\<close> or
  a reference to an object), the next unused object reference of the heap, and what has
  been printed so far.
\<close>

record logger_state =
  instance_attr :: "nat option"
  next_ref :: nat
  stdout :: "string list"

text \<open>
  \<open>Logger()\<close>: Python first allocates the object (\<open>__new__\<close>), then runs
  \<open>__init__\<close>, which raises; the fresh object is never bound to anything.
\<close>

definition Logger_init :: "logger_state \<Rightarrow> logger_state \<times> (error + nat)" where
  "Logger_init s =
     (s\<lparr>next_ref := Suc (next_ref s)\<rparr>, Inl (RuntimeError ''Call instance() instead''))"

text \<open>\<open>Logger.instance()\<close>: creates the object on the first call only.\<close>

definition Logger_instance :: "logger_state \<Rightarrow> logger_state \<times> nat" where
  "Logger_instance s =
     (case instance_attr s of
        None \<Rightarrow>
          (let s1 = s\<lparr>stdout := stdout s @ [''Creating new instance'']\<rparr>;
               r = next_ref s1;
               s2 = s1\<lparr>instance_attr := Some r, next_ref := Suc r\<rparr>
           in (s2, r))
      | Some r \<Rightarrow> (s, r))"

text \<open>A client program: any sequence of the two calls the class offers.\<close>

datatype logger_call = CallInit | CallInstance

fun logger_run :: "logger_call list \<Rightarrow> logger_state \<Rightarrow> logger_state" where
  "logger_run [] s = s"
| "logger_run (CallInit # cs) s = logger_run cs (fst (Logger_init s))"
| "logger_run (CallInstance # cs) s = logger_run cs (fst (Logger_instance s))"

section \<open>DSA\_erp.py: the dynamic chart callback\<close>

text \<open>
  The callback receives the rows the table displays, as Dash sends them: a list of
  dictionaries from column name to a JSON value, or \<open>None\<close> before the table has
  rendered. Integers are those of an \<open>int64\<close> column; \<open>'f\<close> is the type of floats, which
  the callback only passes on. \<open>JNaN\<close> is the float \<open>nan\<close>, with which pandas fills a
  key that a row lacks. The conversion of an integer to the nearest float, which pandas
  applies to the integers of a \<open>float64\<close> column, is the parameter \<open>to_float64\<close>.
\<close>

datatype 'f jval =
    JStr string
  | JInt "64 word"
  | JFloat 'f
  | JBool bool
  | JNull
  | JNaN

type_synonym 'f record_row = "(string \<times> 'f jval) list"

datatype dtype = Float64 | Int64 | BoolDtype | ObjectDtype

text \<open>
  \<open>pd.DataFrame(rows)\<close> on a list of dictionaries: the columns are the keys in the order
  they are first seen, the index is \<open>0..n-1\<close>, a missing key is \<open>nan\<close>, and every
  column gets the dtype pandas infers from its cells: \<open>object\<close> as soon as there is text
  (or a boolean beside anything else), \<open>bool\<close> for booleans only, \<open>int64\<close> for integers
  only, \<open>float64\<close> for numbers with floats, \<open>nan\<close> or \<open>None\<close> among them (\<open>None\<close> is
  then stored as \<open>nan\<close> and an integer as a float), and \<open>object\<close> for a column of
  \<open>None\<close> only.
\<close>

fun is_str :: "'f jval \<Rightarrow> bool" where
  "is_str (JStr _) = True"
| "is_str _ = False"

fun is_bool :: "'f jval \<Rightarrow> bool" where
  "is_bool (JBool _) = True"
| "is_bool _ = False"

fun is_int :: "'f jval \<Rightarrow> bool" where
  "is_int (JInt _) = True"
| "is_int _ = False"

fun is_float_or_nan :: "'f jval \<Rightarrow> bool" where
  "is_float_or_nan (JFloat _) = True"
| "is_float_or_nan JNaN = True"
| "is_float_or_nan _ = False"

definition infer_dtype :: "'f jval list \<Rightarrow> dtype" where
  "infer_dtype vs =
     (if list_ex is_str vs then ObjectDtype
      else if list_ex is_bool vs then (if list_all is_bool vs then BoolDtype else ObjectDtype)
      else if list_ex is_float_or_nan vs then Float64
      else if list_ex is_int vs then (if list_all is_int vs then Int64 else Float64)
      else ObjectDtype)"

fun as_float64 :: "(64 word \<Rightarrow> 'f) \<Rightarrow> 'f jval \<Rightarrow> 'f jval" where
  "as_float64 to_float64 JNull = JNaN"
| "as_float64 to_float64 (JInt n) = JFloat (to_float64 n)"
| "as_float64 to_float64 v = v"

definition store :: "(64 word \<Rightarrow> 'f) \<Rightarrow> dtype \<Rightarrow> 'f jval list \<Rightarrow> 'f jval list" where
  "store to_float64 dt vs = (if dt = Float64 then map (as_float64 to_float64) vs else vs)"

fun first_seen :: "'a list \<Rightarrow> 'a list \<Rightarrow> 'a list" where
  "first_seen acc [] = acc"
| "first_seen acc (k # ks) = first_seen (if k \<in> set acc then acc else acc @ [k]) ks"

record 'f dataframe =
  df_index :: "nat list"
  df_columns :: "(string \<times> dtype \<times> 'f jval list) list"

definition cell_of :: "string \<Rightarrow> 'f record_row \<Rightarrow> 'f jval" where
  "cell_of c r = (case map_of r c of None \<Rightarrow> JNaN | Some v \<Rightarrow> v)"

definition DataFrame :: "(64 word \<Rightarrow> 'f) \<Rightarrow> 'f record_row list \<Rightarrow> 'f dataframe" where
  "DataFrame to_float64 rows =
     \<lparr>df_index = [0 ..< length rows],
      df_columns =
        map (\<lambda>c. let vs = map (cell_of c) rows; dt = infer_dtype vs
                 in (c, dt, store to_float64 dt vs))
          (first_seen [] (concat (map (map fst) rows)))\<rparr>"

text \<open>\<open>dff[column]\<close>: a \<open>KeyError\<close> when the frame has no such column.\<close>

definition getitem :: "'f dataframe \<Rightarrow> string \<Rightarrow> error + (dtype \<times> 'f jval list)" where
  "getitem dff c = (case map_of (df_columns dff) c of None \<Rightarrow> Inl (KeyError c) | Some col \<Rightarrow> Inr col)"

record 'f series =
  series_x :: "nat list"
  series_y :: "'f jval list"
  series_type :: string
  series_name :: string

record layout =
  layout_title :: string
  layout_xaxis :: string
  layout_yaxis :: string

record 'f figure =
  fig_data :: "'f series list"
  fig_layout :: "layout option"

text \<open>The \<open>for column in selected_columns\<close> loop, with the list \<open>data\<close> it appends to.\<close>

fun chart_loop :: "'f dataframe \<Rightarrow> string list \<Rightarrow> 'f series list \<Rightarrow> error + 'f series list" where
  "chart_loop dff [] data = Inr data"
| "chart_loop dff (column # rest) data =
     (case getitem dff column of
        Inl e \<Rightarrow> Inl e
      | Inr (dt, ys) \<Rightarrow>
          chart_loop dff rest
            (if dt \<in> {Float64, Int64}
             then data @ [\<lparr>series_x = df_index dff, series_y = ys,
                           series_type = ''line'', series_name = column\<rparr>]
             else data))"

definition update_dynamic_chart ::
  "(64 word \<Rightarrow> 'f) \<Rightarrow> 'f record_row list option \<Rightarrow> string list option \<Rightarrow> error + 'f figure" where
  "update_dynamic_chart to_float64 rows selected_columns =
     (case rows of
        None \<Rightarrow> Inr \<lparr>fig_data = [], fig_layout = None\<rparr>
      | Some rs \<Rightarrow>
          (let dff = DataFrame to_float64 rs in
           if selected_columns = None \<or> selected_columns = Some []
           then Inr \<lparr>fig_data = [], fig_layout = None\<rparr>
           else
             (case chart_loop dff (the selected_columns) [] of
                Inl e \<Rightarrow> Inl e
              | Inr data \<Rightarrow>
                  Inr \<lparr>fig_data = data,
                       fig_layout = Some \<lparr>layout_title = ''Dynamic Data Chart'',
                                          layout_xaxis = ''Index'',
                                          layout_yaxis = ''Value''\<rparr>\<rparr>)))"

section \<open>DSA\_erp.py: datasets\<close>

text \<open>
  The frame a strategy is given is an ordered list of named columns (names are unique),
  and every column has a dtype: numeric (\<open>int64\<close> or \<open>float64\<close>; \<open>None\<close> is the missing
  value \<open>nan\<close>), \<open>object\<close> holding text (\<open>None\<close> is a blank cell of the CSV file) or
  \<open>datetime64\<close> (\<open>None\<close> is \<open>NaT\<close>). The type \<open>'n\<close> is the type of the numbers of
  the table, integers or floats; nothing is assumed of their arithmetic. A timestamp is
  year, month, day and the nanoseconds since midnight.
\<close>

type_synonym timestamp = "nat \<times> nat \<times> nat \<times> nat"

datatype 'n column =
    NumCol "'n option list"
  | ObjCol "string option list"
  | DateCol "timestamp option list"

type_synonym 'n dataset = "(string \<times> 'n column) list"

text \<open>
  The Python values a column holds, as \<open>Series.apply\<close> hands them to a function;
  \<open>PyInt\<close> is an integer that pandas computes itself (a year, a month, the sum of
  nothing). A frame that a strategy returns is given by the cells of its columns.
\<close>

datatype 'n pyval =
    PyStr string
  | PyNum 'n
  | PyInt int
  | PyNaN
  | PyTimestamp timestamp
  | PyNaT

type_synonym 'n frame = "(string \<times> 'n pyval list) list"

fun cells :: "'n column \<Rightarrow> 'n pyval list" where
  "cells (NumCol vs) = map (\<lambda>v. case v of None \<Rightarrow> PyNaN | Some x \<Rightarrow> PyNum x) vs"
| "cells (ObjCol vs) = map (\<lambda>v. case v of None \<Rightarrow> PyNaN | Some s \<Rightarrow> PyStr s) vs"
| "cells (DateCol vs) = map (\<lambda>v. case v of None \<Rightarrow> PyNaT | Some t \<Rightarrow> PyTimestamp t) vs"

fun column_length :: "'n column \<Rightarrow> nat" where
  "column_length (NumCol vs) = length vs"
| "column_length (ObjCol vs) = length vs"
| "column_length (DateCol vs) = length vs"

text \<open>\<open>data[c]\<close>, \<open>data[c] = col\<close> and \<open>data[[c1, ..., cn]]\<close>, on either kind of frame.\<close>

definition getcol :: "(string \<times> 'c) list \<Rightarrow> string \<Rightarrow> error + 'c" where
  "getcol data c = (case map_of data c of None \<Rightarrow> Inl (KeyError c) | Some col \<Rightarrow> Inr col)"

fun setcol :: "string \<Rightarrow> 'c \<Rightarrow> (string \<times> 'c) list \<Rightarrow> (string \<times> 'c) list" where
  "setcol c col [] = [(c, col)]"
| "setcol c col ((k, v) # rest) =
     (if k = c then (c, col) # rest else (k, v) # setcol c col rest)"

fun project :: "string list \<Rightarrow> (string \<times> 'c) list \<Rightarrow> error + (string \<times> 'c) list" where
  "project [] data = Inr []"
| "project (c # cs) data =
     (case getcol data c of
        Inl e \<Rightarrow> Inl e
      | Inr col \<Rightarrow> (case project cs data of Inl e \<Rightarrow> Inl e | Inr rest \<Rightarrow> Inr ((c, col) # rest)))"

subsection \<open>What pandas computes\<close>

text \<open>
  Three computations of pandas are parameters of the model, gathered in a record:
  \<^item> \<open>parse_datetime v\<close> is what \<open>pd.to_datetime\<close> makes of a cell \<open>v\<close> that holds text
    or a number: it raises (\<open>Unparseable\<close>), or gives \<open>NaT\<close> (as for the texts \<open>''\<close> and
    \<open>'NaT'\<close>), or a timestamp;
  \<^item> \<open>num_sum xs\<close> is the sum pandas computes of the numbers \<open>xs\<close>, taken in row order:
    exact for \<open>int64\<close>, rounded for \<open>float64\<close>;
  \<^item> \<open>obj_sum cs\<close> is what the sum of the cells \<open>cs\<close> of an \<open>object\<close> column gives: the
    texts glued together, or an exception.
\<close>

datatype parsed = Unparseable | ParsedNaT | Parsed timestamp

record 'n pandas =
  parse_datetime :: "'n pyval \<Rightarrow> parsed"
  num_sum :: "'n list \<Rightarrow> 'n"
  obj_sum :: "string option list \<Rightarrow> error + 'n pyval"

text \<open>The values that are present in a column (pandas leaves \<open>nan\<close> out of sums and groups).\<close>

fun present :: "'a option list \<Rightarrow> 'a list" where
  "present [] = []"
| "present (None # vs) = present vs"
| "present (Some v # vs) = v # present vs"

subsection \<open>Grouped sums\<close>

text \<open>
  \<open>groupby(keys)[col].sum()\<close>: one group per key value that is present (rows whose key is
  missing belong to no group, pandas' \<open>dropna=True\<close>), the groups in ascending order of
  the key (\<open>sort=True\<close>), and for each group the sum of the cells of the column in the rows
  of the group: of a numeric column the sum of the numbers that are present (\<open>skipna\<close>),
  of an \<open>object\<close> column what \<open>obj_sum\<close> makes of the cells; a \<open>datetime64\<close> column
  cannot be added up (\<open>TypeError\<close>).
\<close>

definition group_keys :: "('k::linorder) option list \<Rightarrow> 'k list" where
  "group_keys ks = sort (remdups (present ks))"

definition group_rows :: "'k option list \<Rightarrow> 'v list \<Rightarrow> 'k \<Rightarrow> 'v list" where
  "group_rows ks vs k = map snd (filter (\<lambda>r. fst r = Some k) (zip ks vs))"

fun collect :: "(error + 'a) list \<Rightarrow> error + 'a list" where
  "collect [] = Inr []"
| "collect (r # rs) =
     (case r of
        Inl e \<Rightarrow> Inl e
      | Inr x \<Rightarrow> (case collect rs of Inl e \<Rightarrow> Inl e | Inr xs \<Rightarrow> Inr (x # xs)))"

fun group_sums ::
  "'n pandas \<Rightarrow> ('k::linorder) option list \<Rightarrow> 'n column \<Rightarrow> error + 'n pyval list" where
  "group_sums pd ks (NumCol vs) =
     Inr (map (\<lambda>k. PyNum (num_sum pd (present (group_rows ks vs k)))) (group_keys ks))"
| "group_sums pd ks (ObjCol vs) =
     collect (map (\<lambda>k. obj_sum pd (group_rows ks vs k)) (group_keys ks))"
| "group_sums pd ks (DateCol vs) = Inl TypeError"

text \<open>
  Grouping by a column of the frame: the key cells of the result (the distinct values
  present, ascending), and the sums of another column by these keys.
\<close>

fun key_cells :: "('n::linorder) column \<Rightarrow> 'n pyval list" where
  "key_cells (NumCol ks) = map PyNum (group_keys ks)"
| "key_cells (ObjCol ks) = map PyStr (group_keys ks)"
| "key_cells (DateCol ks) = map PyTimestamp (group_keys ks)"

fun sums_by :: "('n::linorder) pandas \<Rightarrow> 'n column \<Rightarrow> 'n column \<Rightarrow> error + 'n pyval list" where
  "sums_by pd (NumCol ks) col = group_sums pd ks col"
| "sums_by pd (ObjCol ks) col = group_sums pd ks col"
| "sums_by pd (DateCol ks) col = group_sums pd ks col"

subsection \<open>The aggregation strategies\<close>

text \<open>
  Every \<open>process_data\<close> takes the frame and returns the frame as the call leaves it (the
  caller's object, which two strategies assign to) together with the result or the
  exception raised.

  \<open>pd.to_datetime\<close> on a column: timestamps stay, a missing cell becomes \<open>NaT\<close>, and a
  text or a number is converted by \<open>parse_datetime\<close>.
\<close>

fun to_datetime_cell :: "'n pandas \<Rightarrow> 'n pyval \<Rightarrow> error + timestamp option" where
  "to_datetime_cell pd PyNaN = Inr None"
| "to_datetime_cell pd PyNaT = Inr None"
| "to_datetime_cell pd (PyTimestamp t) = Inr (Some t)"
| "to_datetime_cell pd v =
     (case parse_datetime pd v of
        Unparseable \<Rightarrow> Inl DateParseError
      | ParsedNaT \<Rightarrow> Inr None
      | Parsed t \<Rightarrow> Inr (Some t))"

definition to_datetime :: "'n pandas \<Rightarrow> 'n column \<Rightarrow> error + timestamp option list" where
  "to_datetime pd col = collect (map (to_datetime_cell pd) (cells col))"

definition dt_year_month :: "timestamp option \<Rightarrow> (nat \<times> nat) option" where
  "dt_year_month t = map_option (\<lambda>(y, m, d, ns). (y, m)) t"

definition dt_month :: "timestamp option \<Rightarrow> nat option" where
  "dt_month t = map_option (\<lambda>(y, m, d, ns). m) t"

definition SalesTrendsOverTime ::
  "'n pandas \<Rightarrow> 'n dataset \<Rightarrow> 'n dataset \<times> (error + 'n frame)" where
  "SalesTrendsOverTime pd data =
     (case getcol data ''Date'' of
        Inl e \<Rightarrow> (data, Inl e)
      | Inr dcol \<Rightarrow>
     (case to_datetime pd dcol of
        Inl e \<Rightarrow> (data, Inl e)
      | Inr ds \<Rightarrow>
          (let data1 = setcol ''Date'' (DateCol ds) data;
               keys = map dt_year_month ds
           in
     (case getcol data1 ''Sales'' of
        Inl e \<Rightarrow> (data1, Inl e)
      | Inr scol \<Rightarrow>
     (case group_sums pd keys scol of
        Inl e \<Rightarrow> (data1, Inl e)
      | Inr totals \<Rightarrow>
          (let g = group_keys keys;
               grouped = [(''Year'', map (\<lambda>(y, m). PyInt (int y)) g),
                          (''Month'', map (\<lambda>(y, m). PyInt (int m)) g),
                          (''TotalSales'', totals)];
               grouped1 = setcol ''Date'' (map (\<lambda>(y, m). PyTimestamp (y, m, 1, 0)) g) grouped;
               cols = ''Date'' # filter (\<lambda>col. col \<noteq> ''Date'') (map fst grouped1)
           in (data1, project cols grouped1)))))))"

definition ProfitAnalysisByCountry ::
  "('n::linorder) pandas \<Rightarrow> 'n dataset \<Rightarrow> 'n dataset \<times> (error + 'n frame)" where
  "ProfitAnalysisByCountry pd data =
     (case getcol data ''Country'' of
        Inl e \<Rightarrow> (data, Inl e)
      | Inr kcol \<Rightarrow>
     (case getcol data ''Profit'' of
        Inl e \<Rightarrow> (data, Inl e)
      | Inr pcol \<Rightarrow>
     (case sums_by pd kcol pcol of
        Inl e \<Rightarrow> (data, Inl e)
      | Inr ps \<Rightarrow> (data, Inr [(''Country'', key_cells kcol), (''Profit'', ps)]))))"

definition ProductPerformance ::
  "('n::linorder) pandas \<Rightarrow> 'n dataset \<Rightarrow> 'n dataset \<times> (error + 'n frame)" where
  "ProductPerformance pd data =
     (case getcol data ''Product'' of
        Inl e \<Rightarrow> (data, Inl e)
      | Inr kcol \<Rightarrow>
     (case getcol data ''Sales'' of
        Inl e \<Rightarrow> (data, Inl e)
      | Inr scol \<Rightarrow>
     (case getcol data ''Profit'' of
        Inl e \<Rightarrow> (data, Inl e)
      | Inr pcol \<Rightarrow>
     (case sums_by pd kcol scol of
        Inl e \<Rightarrow> (data, Inl e)
      | Inr ss \<Rightarrow>
     (case sums_by pd kcol pcol of
        Inl e \<Rightarrow> (data, Inl e)
      | Inr ps \<Rightarrow>
          (data, Inr [(''Product'', key_cells kcol), (''Sales'', ss), (''Profit'', ps)]))))))"

definition DiscountImpactOnSales :: "'n dataset \<Rightarrow> 'n dataset \<times> (error + 'n dataset)" where
  "DiscountImpactOnSales data = (data, project [''Discount Band'', ''Sales'', ''Profit''] data)"

definition MonthlySalesDistribution ::
  "'n pandas \<Rightarrow> 'n dataset \<Rightarrow> 'n dataset \<times> (error + 'n frame)" where
  "MonthlySalesDistribution pd data =
     (case getcol data ''Date'' of
        Inl e \<Rightarrow> (data, Inl e)
      | Inr dcol \<Rightarrow>
     (case to_datetime pd dcol of
        Inl e \<Rightarrow> (data, Inl e)
      | Inr ds \<Rightarrow>
          (let data1 = setcol ''Date'' (DateCol ds) data;
               keys = map dt_month ds
           in
     (case getcol data1 ''Sales'' of
        Inl e \<Rightarrow> (data1, Inl e)
      | Inr scol \<Rightarrow>
     (case group_sums pd keys scol of
        Inl e \<Rightarrow> (data1, Inl e)
      | Inr totals \<Rightarrow>
          (data1, Inr [(''Date'', map (\<lambda>m. PyInt (int m)) (group_keys keys)),
                       (''MonthlySales'', totals)]))))))"

definition CountryWiseSalesDistribution ::
  "('n::linorder) pandas \<Rightarrow> 'n dataset \<Rightarrow> 'n dataset \<times> (error + 'n frame)" where
  "CountryWiseSalesDistribution pd data =
     (case getcol data ''Country'' of
        Inl e \<Rightarrow> (data, Inl e)
      | Inr kcol \<Rightarrow>
     (case getcol data ''Sales'' of
        Inl e \<Rightarrow> (data, Inl e)
      | Inr scol \<Rightarrow>
     (case sums_by pd kcol scol of
        Inl e \<Rightarrow> (data, Inl e)
      | Inr ss \<Rightarrow> (data, Inr [(''Country'', key_cells kcol), (''Sales'', ss)]))))"

subsection \<open>The correlation strategy\<close>

text \<open>
  \<open>convert_currency\<close>. Only text has the methods \<open>replace\<close> and \<open>strip\<close>: on any other
  cell (a number, \<open>nan\<close>, a timestamp, \<open>NaT\<close>) a method call of the \<open>try\<close> block
  raises. Python's \<open>float\<close> is a parameter: \<open>pyfloat s\<close> is \<open>Inl ValueError\<close> when
  \<open>float(s)\<close> raises, \<open>Inr None\<close> when it is \<open>nan\<close> and \<open>Inr (Some x)\<close> when it is the
  number \<open>x\<close>. The result \<open>None\<close> of \<open>convert_currency\<close> is \<open>np.nan\<close>.
\<close>

definition py_whitespace :: "char \<Rightarrow> bool" where
  "py_whitespace ch = (of_char ch \<in> {9, 10, 11, 12, 13, 28, 29, 30, 31, 32 :: nat})"

definition strip :: "string \<Rightarrow> string" where
  "strip s = rev (dropWhile py_whitespace (rev (dropWhile py_whitespace s)))"

definition remove_char :: "char \<Rightarrow> string \<Rightarrow> string" where
  "remove_char ch s = filter (\<lambda>x. x \<noteq> ch) s"

fun convert_currency_try :: "(string \<Rightarrow> error + 'n option) \<Rightarrow> 'n pyval \<Rightarrow> error + 'n option" where
  "convert_currency_try pyfloat (PyStr val0) =
     (let val = remove_char (CHR ''$'') (remove_char (CHR '','') val0)
      in if strip val \<noteq> '''' \<and> strip val \<noteq> ''-'' then pyfloat val else Inr None)"
| "convert_currency_try pyfloat _ = Inl AttributeError"

definition convert_currency :: "(string \<Rightarrow> error + 'n option) \<Rightarrow> 'n pyval \<Rightarrow> 'n option" where
  "convert_currency pyfloat val =
     (case convert_currency_try pyfloat val of Inl e \<Rightarrow> None | Inr r \<Rightarrow> r)"

definition corr_columns :: "string list" where
  "corr_columns = [''Units Sold'', ''Manufacturing Price'', ''Sale Price'', ''Gross Sales'',
                   ''Discounts'', ''Sales'', ''Profit'']"

text \<open>The loop \<open>for col in [...]: data[col] = data[col].apply(convert_currency)\<close>.\<close>

fun convert_columns ::
  "(string \<Rightarrow> error + 'n option) \<Rightarrow> string list \<Rightarrow> 'n dataset \<Rightarrow> 'n dataset \<times> (error + unit)" where
  "convert_columns pyfloat [] data = (data, Inr ())"
| "convert_columns pyfloat (c # cs) data =
     (case getcol data c of
        Inl e \<Rightarrow> (data, Inl e)
      | Inr col \<Rightarrow>
          convert_columns pyfloat cs
            (setcol c (NumCol (map (convert_currency pyfloat) (cells col))) data))"

text \<open>
  \<open>DataFrame.corr()\<close> is pandas' floating-point Pearson correlation; it is a parameter
  of the model, applied to the seven normalized columns.
\<close>

definition CorrelationAnalysis ::
  "(string \<Rightarrow> error + 'n option) \<Rightarrow> ('n dataset \<Rightarrow> 'm) \<Rightarrow> 'n dataset \<Rightarrow> 'n dataset \<times> (error + 'm)" where
  "CorrelationAnalysis pyfloat corr data =
     (case convert_columns pyfloat corr_columns data of
        (data1, Inl e) \<Rightarrow> (data1, Inl e)
      | (data1, Inr u) \<Rightarrow>
          (case project corr_columns data1 of
             Inl e \<Rightarrow> (data1, Inl e)
           | Inr sub \<Rightarrow> (data1, Inr (corr sub))))"

subsection \<open>Sample inputs\<close>

text \<open>
  The pandas of the examples below. Its date parser is pandas' parser restricted to ISO
  dates \<open>YYYY-MM-DD\<close> and to the texts \<open>''\<close> and \<open>'NaT'\<close>, which give \<open>NaT\<close> (pandas
  accepts many more spellings; every other cell is refused here). Its numbers are
  integers, added up exactly, and its sum of text cells glues the texts that are present
  (the sum of none is the integer \<open>0\<close>).
\<close>

definition digit_val :: "char \<Rightarrow> nat option" where
  "digit_val ch =
     (let n = (of_char ch :: nat) in if 48 \<le> n \<and> n \<le> 57 then Some (n - 48) else None)"

fun digits_val :: "nat \<Rightarrow> string \<Rightarrow> nat option" where
  "digits_val acc [] = Some acc"
| "digits_val acc (ch # rest) =
     (case digit_val ch of None \<Rightarrow> None | Some d \<Rightarrow> digits_val (10 * acc + d) rest)"

definition days_in_month :: "nat \<Rightarrow> nat \<Rightarrow> nat" where
  "days_in_month y m =
     (if m = 2 then (if y mod 4 = 0 \<and> (y mod 100 \<noteq> 0 \<or> y mod 400 = 0) then 29 else 28)
      else if m \<in> {4, 6, 9, 11} then 30 else 31)"

definition iso_date :: "string \<Rightarrow> timestamp option" where
  "iso_date s =
     (if length s = 10 \<and> s ! 4 = CHR ''-'' \<and> s ! 7 = CHR ''-''
      then (case (digits_val 0 (take 4 s), digits_val 0 (take 2 (drop 5 s)), digits_val 0 (drop 8 s)) of
              (Some y, Some m, Some d) \<Rightarrow>
                if 1 \<le> m \<and> m \<le> 12 \<and> 1 \<le> d \<and> d \<le> days_in_month y m
                then Some (y, m, d, 0) else None
            | _ \<Rightarrow> None)
      else None)"

fun parse_iso :: "'n pyval \<Rightarrow> parsed" where
  "parse_iso (PyStr s) =
     (if s = '''' \<or> s = ''NaT'' then ParsedNaT
      else (case iso_date s of None \<Rightarrow> Unparseable | Some t \<Rightarrow> Parsed t))"
| "parse_iso v = Unparseable"

definition glue_text :: "string option list \<Rightarrow> error + 'n pyval" where
  "glue_text cs = (case present cs of [] \<Rightarrow> Inr (PyInt 0) | t # ts \<Rightarrow> Inr (PyStr (concat (t # ts))))"

definition sample_pandas :: "int pandas" where
  "sample_pandas = \<lparr>parse_datetime = parse_iso, num_sum = sum_list, obj_sum = glue_text\<rparr>"

text \<open>
  Python's \<open>float\<close> restricted to integer literals with an optional minus sign and
  surrounding blanks (every other text is refused here), for the examples.
\<close>

definition float_of_digits :: "string \<Rightarrow> error + int option" where
  "float_of_digits s =
     (case strip s of
        [] \<Rightarrow> Inl ValueError
      | ch # rest \<Rightarrow>
          if ch = CHR ''-'' \<and> rest \<noteq> []
          then (case digits_val 0 rest of None \<Rightarrow> Inl ValueError | Some n \<Rightarrow> Inr (Some (- int n)))
          else (case digits_val 0 (ch # rest) of None \<Rightarrow> Inl ValueError | Some n \<Rightarrow> Inr (Some (int n))))"

text \<open>
  Sample frames: a sales table, one without the \<open>Sales\<close> column, one with a date that
  does not parse, one with a blank date, one whose sales are text, and one with currency
  text.
\<close>

definition sample_frame :: "int dataset" where
  "sample_frame =
     [(''Date'', ObjCol [Some ''2020-01-15'', Some ''2020-02-03'', Some ''2020-01-20'']),
      (''Country'', ObjCol [Some ''France'', Some ''Canada'', Some ''France'']),
      (''Product'', ObjCol [Some ''Paseo'', Some ''Velo'', Some ''Velo'']),
      (''Discount Band'', ObjCol [Some ''Low'', None, Some ''High'']),
      (''Sales'', NumCol [Some 100, Some 30, Some 50]),
      (''Profit'', NumCol [Some 10, Some 3, Some 5])]"

definition sample_no_sales :: "int dataset" where
  "sample_no_sales =
     [(''Date'', ObjCol [Some ''2020-01-15'', Some ''2020-02-03'', Some ''2020-01-20'']),
      (''Country'', ObjCol [Some ''France'', Some ''Canada'', Some ''France'']),
      (''Profit'', NumCol [Some 10, Some 3, Some 5])]"

definition sample_bad_date :: "int dataset" where
  "sample_bad_date =
     [(''Date'', ObjCol [Some ''2020-01-15'', Some ''next week'']),
      (''Country'', ObjCol [Some ''France'', Some ''Canada'']),
      (''Profit'', NumCol [Some 10, Some 3])]"

definition sample_undated :: "int dataset" where
  "sample_undated =
     [(''Date'', ObjCol [Some ''2020-01-15'', None]),
      (''Sales'', NumCol [Some 100, Some 50])]"

definition sample_text_sales :: "int dataset" where
  "sample_text_sales =
     [(''Date'', ObjCol [Some ''2020-01-15'', Some ''2020-02-03'', Some ''2020-01-20'']),
      (''Country'', ObjCol [Some ''France'', Some ''Canada'', Some ''France'']),
      (''Sales'', ObjCol [Some ''$100'', Some ''$30'', Some ''$50''])]"

definition sample_financials :: "int dataset" where
  "sample_financials =
     [(''Country'', ObjCol [Some ''France'', Some ''Canada'']),
      (''Units Sold'', ObjCol [Some ''1,618'', Some ''$-'']),
      (''Manufacturing Price'', ObjCol [Some ''$3'', Some ''$5'']),
      (''Sale Price'', ObjCol [Some '' $20 '', Some ''$15'']),
      (''Gross Sales'', ObjCol [Some ''$32,360'', Some ''  '']),
      (''Discounts'', ObjCol [Some '' $-   '', None]),
      (''Sales'', NumCol [Some 32360, Some 500]),
      (''Profit'', ObjCol [Some ''-2,000'', Some ''n/a''])]"

section \<open>The vocabulary of the specification\<close>

text \<open>
  The definitions of this section follow the words of the specification, not the code;
  the theorems below compare the strategies with them.

  \<open>same_except cs d d'\<close>: the frame \<open>d'\<close> has the columns of \<open>d\<close>, in the same order and
  of the same length, and outside the columns named in \<open>cs\<close> the same contents.
\<close>

definition same_except :: "string set \<Rightarrow> 'n dataset \<Rightarrow> 'n dataset \<Rightarrow> bool" where
  "same_except cs d d' =
     (map fst d' = map fst d
      \<and> (\<forall>c. c \<notin> cs \<longrightarrow> map_of d' c = map_of d c)
      \<and> (\<forall>c. map_option column_length (map_of d' c) = map_option column_length (map_of d c)))"

text \<open>A cell is missing when it is \<open>nan\<close> or \<open>NaT\<close>; in a sum a missing number counts for nothing.\<close>

fun is_missing :: "'n pyval \<Rightarrow> bool" where
  "is_missing PyNaN = True"
| "is_missing PyNaT = True"
| "is_missing v = False"

fun nan_to_zero :: "('n::zero) option \<Rightarrow> 'n" where
  "nan_to_zero None = 0"
| "nan_to_zero (Some v) = v"

text \<open>
  The cells of a column of the input frame, the numbers of a numeric column of it, and the
  cells of a column of a result.
\<close>

definition key_column :: "'n dataset \<Rightarrow> string \<Rightarrow> 'n pyval list" where
  "key_column data k = (case map_of data k of None \<Rightarrow> [] | Some col \<Rightarrow> cells col)"

definition value_column :: "'n dataset \<Rightarrow> string \<Rightarrow> 'n option list" where
  "value_column data c = (case map_of data c of Some (NumCol vs) \<Rightarrow> vs | _ \<Rightarrow> [])"

definition frame_cells :: "'n frame \<Rightarrow> string \<Rightarrow> 'n pyval list" where
  "frame_cells out c = (case map_of out c of None \<Rightarrow> [] | Some cs \<Rightarrow> cs)"

text \<open>
  The mathematical sum of a numeric column of the input, of a column of numbers of a
  result, and of the sales \<open>vs\<close> over the rows whose date, in \<open>ds\<close>, is not missing.
\<close>

definition column_total :: "('n::comm_monoid_add) dataset \<Rightarrow> string \<Rightarrow> 'n" where
  "column_total data c = sum_list (map nan_to_zero (value_column data c))"

fun num_of :: "('n::zero) pyval \<Rightarrow> 'n" where
  "num_of (PyNum x) = x"
| "num_of v = 0"

definition frame_total :: "('n::comm_monoid_add) frame \<Rightarrow> string \<Rightarrow> 'n" where
  "frame_total out c = sum_list (map num_of (frame_cells out c))"

definition dated_total :: "'d option list \<Rightarrow> ('n::comm_monoid_add) option list \<Rightarrow> 'n" where
  "dated_total ds vs = (\<Sum>(d, v)\<leftarrow>zip ds vs. if d = None then 0 else nan_to_zero v)"

text \<open>
  The distinct category values of a column, and the numbers of a column \<open>vs\<close> that are
  present in exactly the rows whose category, in \<open>ks\<close>, is \<open>c\<close>, in row order.
\<close>

definition category_values :: "'n pyval list \<Rightarrow> 'n pyval set" where
  "category_values ks = set (filter (\<lambda>v. \<not> is_missing v) ks)"

definition category_rows :: "'k list \<Rightarrow> 'v option list \<Rightarrow> 'k \<Rightarrow> 'v list" where
  "category_rows ks vs c = present (map snd (filter (\<lambda>r. fst r = c) (zip ks vs)))"

text \<open>
  \<open>is_grouped pd data k cs out\<close>: the frame \<open>out\<close> has the columns \<open>k\<close> and \<open>cs\<close>, one row
  for each distinct category value of the column \<open>k\<close> of \<open>data\<close>, and in each column of
  \<open>cs\<close> the sum (\<open>num_sum\<close>) of that column of \<open>data\<close> over the rows of the category.
\<close>

definition is_grouped ::
  "'n pandas \<Rightarrow> 'n dataset \<Rightarrow> string \<Rightarrow> string list \<Rightarrow> 'n frame \<Rightarrow> bool" where
  "is_grouped pd data k cs out =
     (map fst out = k # cs
      \<and> category_values (frame_cells out k) = category_values (key_column data k)
      \<and> distinct (frame_cells out k)
      \<and> \<not> list_ex is_missing (frame_cells out k)
      \<and> list_all
           (\<lambda>c. frame_cells out c =
                 map (\<lambda>v. PyNum (num_sum pd (category_rows (key_column data k) (value_column data c) v)))
                   (frame_cells out k))
           cs)"

text \<open>
  \<open>monthly_rows pd ds vs g\<close>: the frame with the columns \<open>Date\<close>, \<open>Year\<close>, \<open>Month\<close> and
  \<open>TotalSales\<close>, in this order, and one row for each (year, month) of the list \<open>g\<close>: the
  first day of the month, the year, the month, and the sum of the sales \<open>vs\<close> over the
  rows whose date, in \<open>ds\<close>, falls in that month.
\<close>

definition monthly_rows ::
  "'n pandas \<Rightarrow> timestamp option list \<Rightarrow> 'n option list \<Rightarrow> (nat \<times> nat) list \<Rightarrow> 'n frame" where
  "monthly_rows pd ds vs g =
     [(''Date'', map (\<lambda>(y, m). PyTimestamp (y, m, 1, 0)) g),
      (''Year'', map (\<lambda>(y, m). PyInt (int y)) g),
      (''Month'', map (\<lambda>(y, m). PyInt (int m)) g),
      (''TotalSales'',
       map (\<lambda>k. PyNum (num_sum pd (category_rows (map dt_year_month ds) vs (Some k)))) g)]"

text \<open>
  \<open>MissingColumn required data res\<close>: the result \<open>res\<close> is the \<open>KeyError\<close> that names a
  column of \<open>required\<close> which the frame lacks. \<open>dates_parse pd data\<close>: the frame has no
  \<open>Date\<close> column, or \<open>pd.to_datetime\<close> accepts every cell of it.
\<close>

definition absent :: "'n dataset \<Rightarrow> string \<Rightarrow> bool" where
  "absent data c = (map_of data c = None)"

definition MissingColumn :: "string list \<Rightarrow> 'n dataset \<Rightarrow> error + 'r \<Rightarrow> bool" where
  "MissingColumn required data res = list_ex (\<lambda>c. absent data c \<and> res = Inl (KeyError c)) required"

definition dates_parse :: "'n pandas \<Rightarrow> 'n dataset \<Rightarrow> bool" where
  "dates_parse pd data =
     (case map_of data ''Date'' of
        None \<Rightarrow> True
      | Some dcol \<Rightarrow> (case to_datetime pd dcol of Inl e \<Rightarrow> False | Inr ds \<Rightarrow> True))"

section \<open>Properties of the Logger\<close>

lemma Logger_instance_sets: "instance_attr (fst (Logger_instance s)) = Some (snd (Logger_instance s))"
  by (simp add: Logger_instance_def Let_def split: option.splits)

lemma Logger_instance_keeps:
  "instance_attr s = Some r \<Longrightarrow> Logger_instance s = (s, r)"
  by (simp add: Logger_instance_def)

lemma logger_run_keeps:
  "instance_attr s = Some r \<Longrightarrow> instance_attr (logger_run cs s) = Some r"
proof (induction cs arbitrary: s)
  case Nil
  then show ?case by simp
next
  case (Cons c cs)
  then show ?case
    by (cases c) (simp_all add: Logger_init_def Logger_instance_keeps)
qed

text \<open>
  Claim C10. \<open>Logger.instance()\<close> returns the identical object on every call: the
  reference returned by a first call is returned again by any later call, whatever calls
  of \<open>instance()\<close> and of the constructor the program makes in between; and calling the
  constructor \<open>Logger()\<close> raises \<open>RuntimeError\<close> in every state, so it never hands out
  a Logger.
\<close>

theorem Logger_singleton:
  "snd (Logger_instance (logger_run cs (fst (Logger_instance s)))) = snd (Logger_instance s)
   \<and> snd (Logger_init s) = Inl (RuntimeError ''Call instance() instead'')"
proof -
  have "instance_attr (logger_run cs (fst (Logger_instance s))) = Some (snd (Logger_instance s))"
    by (rule logger_run_keeps) (rule Logger_instance_sets)
  then show ?thesis
    by (simp add: Logger_instance_keeps Logger_init_def)
qed

section \<open>Properties of the dynamic chart callback\<close>

text \<open>
  Claim C9. Invoked before the table has rendered (the rows argument is \<open>None\<close>), the
  callback returns the figure with an empty series list, for every column selection
  (\<open>None\<close>, empty or not); it does not raise.
\<close>

theorem chart_before_render:
  "update_dynamic_chart to_float64 None selected_columns = Inr \<lparr>fig_data = [], fig_layout = None\<rparr>"
  by (simp add: update_dynamic_chart_def)

text \<open>
  Claim C3, at the input where the callback departs from it. The claim asks for an empty
  series set, not an error, when the row set is empty. The callback guards \<open>rows is None\<close>
  and the empty selection, but not the empty row list (what the table sends when a filter
  matches no row): \<open>pd.DataFrame([])\<close> has no column, so \<open>dff[column]\<close> raises
  \<open>KeyError\<close> for the first selected column.
\<close>

theorem chart_empty_rows_KeyError:
  "update_dynamic_chart to_float64 (Some []) (Some [''Sales'']) = Inl (KeyError ''Sales'')"
  by (simp add: update_dynamic_chart_def DataFrame_def getitem_def)

text \<open>The rest of claim C3 holds: the empty selection, and the example of the specification.\<close>

lemma chart_empty_selection:
  "update_dynamic_chart to_float64 (Some rs) (Some []) = Inr \<lparr>fig_data = [], fig_layout = None\<rparr>"
  "update_dynamic_chart to_float64 (Some rs) None = Inr \<lparr>fig_data = [], fig_layout = None\<rparr>"
  by (simp_all add: update_dynamic_chart_def)

lemma chart_example:
  "update_dynamic_chart to_float64 (Some [[(''Sales'', JInt 10)], [(''Sales'', JInt 20)]]) (Some [''Sales''])
   = Inr \<lparr>fig_data = [\<lparr>series_x = [0, 1], series_y = [JInt 10, JInt 20],
                         series_type = ''line'', series_name = ''Sales''\<rparr>],
          fig_layout = Some \<lparr>layout_title = ''Dynamic Data Chart'',
                             layout_xaxis = ''Index'', layout_yaxis = ''Value''\<rparr>\<rparr>"
  by (simp add: update_dynamic_chart_def DataFrame_def getitem_def cell_of_def infer_dtype_def
      store_def upt_rec)

text \<open>
  In general, when the table displays rows and every selected column occurs in them, the
  figure has one line series for each selected column of dtype \<open>float64\<close> or \<open>int64\<close>,
  in the order of the selection, over the row positions; a column with a text cell is left
  out.
\<close>

lemma chart_loop_series:
  assumes "\<And>c. c \<in> set cols \<Longrightarrow> getitem dff c = Inr (dt c, ys c)"
  shows "chart_loop dff cols data =
     Inr (data @ map (\<lambda>c. \<lparr>series_x = df_index dff, series_y = ys c,
                              series_type = ''line'', series_name = c\<rparr>)
                  (filter (\<lambda>c. dt c \<in> {Float64, Int64}) cols))"
  using assms by (induction cols arbitrary: data) auto

lemma map_of_map_key: "c \<in> set cs \<Longrightarrow> map_of (map (\<lambda>c. (c, f c)) cs) c = Some (f c)"
  by (induction cs) auto

lemma getitem_DataFrame:
  assumes "c \<in> set (first_seen [] (concat (map (map fst) rows)))"
  shows "getitem (DataFrame to_float64 rows) c =
     Inr (infer_dtype (map (cell_of c) rows),
          store to_float64 (infer_dtype (map (cell_of c) rows)) (map (cell_of c) rows))"
  using assms by (simp add: getitem_def DataFrame_def Let_def map_of_map_key)

lemma set_first_seen: "set (first_seen acc ks) = set acc \<union> set ks"
  by (induction ks arbitrary: acc) auto

lemma chart_series:
  assumes "selected \<noteq> []" and "\<And>c. c \<in> set selected \<Longrightarrow> \<exists>r\<in>set rows. c \<in> fst ` set r"
  shows "update_dynamic_chart to_float64 (Some rows) (Some selected) =
     Inr \<lparr>fig_data =
            map (\<lambda>c. \<lparr>series_x = [0 ..< length rows],
                       series_y = store to_float64 (infer_dtype (map (cell_of c) rows)) (map (cell_of c) rows),
                       series_type = ''line'', series_name = c\<rparr>)
              (filter (\<lambda>c. infer_dtype (map (cell_of c) rows) \<in> {Float64, Int64}) selected),
          fig_layout = Some \<lparr>layout_title = ''Dynamic Data Chart'',
                             layout_xaxis = ''Index'', layout_yaxis = ''Value''\<rparr>\<rparr>"
proof -
  have "c \<in> set (first_seen [] (concat (map (map fst) rows)))" if "c \<in> set selected" for c
    using assms(2)[OF that] by (auto simp: set_first_seen)
  then have "chart_loop (DataFrame to_float64 rows) selected [] =
     Inr ([] @ map (\<lambda>c. \<lparr>series_x = df_index (DataFrame to_float64 rows),
                       series_y = store to_float64 (infer_dtype (map (cell_of c) rows)) (map (cell_of c) rows),
                       series_type = ''line'', series_name = c\<rparr>)
              (filter (\<lambda>c. infer_dtype (map (cell_of c) rows) \<in> {Float64, Int64}) selected))"
    by (intro chart_loop_series getitem_DataFrame)
  then show ?thesis
    using assms(1) by (simp add: update_dynamic_chart_def Let_def DataFrame_def)
qed

lemma text_column_not_numeric:
  "list_ex is_str vs \<Longrightarrow> infer_dtype vs \<notin> {Float64, Int64}"
  by (simp add: infer_dtype_def)

lemma chart_text_excluded:
  "update_dynamic_chart to_float64
     (Some [[(''Product'', JStr ''Paseo''), (''Sales'', JInt 10)],
            [(''Product'', JStr ''Velo''), (''Sales'', JFloat x)]])
     (Some [''Product'', ''Sales''])
   = Inr \<lparr>fig_data = [\<lparr>series_x = [0, 1], series_y = [JFloat (to_float64 10), JFloat x],
                         series_type = ''line'', series_name = ''Sales''\<rparr>],
          fig_layout = Some \<lparr>layout_title = ''Dynamic Data Chart'',
                             layout_xaxis = ''Index'', layout_yaxis = ''Value''\<rparr>\<rparr>"
  by (simp add: update_dynamic_chart_def DataFrame_def getitem_def cell_of_def infer_dtype_def
      store_def upt_rec)

section \<open>Frames: lookup, assignment and what a strategy leaves unchanged\<close>

lemma getcol_setcol_same: "getcol (setcol c col data) c = Inr col"
  by (induction data) (auto simp: getcol_def)

lemma getcol_setcol_other: "c' \<noteq> c \<Longrightarrow> getcol (setcol c col data) c' = getcol data c'"
  by (induction data) (auto simp: getcol_def)

lemma names_setcol: "getcol data c = Inr old \<Longrightarrow> map fst (setcol c col data) = map fst data"
  by (induction data) (auto simp: getcol_def split: if_splits option.splits)

lemma map_of_setcol:
  "map_of (setcol c col data) = (map_of data)(c \<mapsto> col)"
  by (induction data) (auto simp: fun_eq_iff)

lemma getcol_Inr_iff: "getcol data c = Inr col \<longleftrightarrow> map_of data c = Some col"
  by (simp add: getcol_def split: option.splits)

lemma getcol_Inl_iff: "getcol data c = Inl e \<longleftrightarrow> map_of data c = None \<and> e = KeyError c"
  by (auto simp add: getcol_def split: option.splits)

lemma length_cells: "length (cells col) = column_length col"
  by (cases col) simp_all

lemma collect_length: "collect rs = Inr xs \<Longrightarrow> length xs = length rs"
  by (induction rs arbitrary: xs) (auto split: sum.splits)

lemma collect_Inr: "collect (map Inr xs) = Inr xs"
  by (induction xs) auto

lemma collect_Inr_D: "collect rs = Inr xs \<Longrightarrow> rs = map Inr xs"
  by (induction rs arbitrary: xs) (auto split: sum.splits)

lemma collect_Inr_iff: "collect rs = Inr xs \<longleftrightarrow> rs = map Inr xs"
  by (auto simp: collect_Inr dest: collect_Inr_D)

lemma collect_Inl: "collect rs = Inl e \<Longrightarrow> Inl e \<in> set rs"
  by (induction rs) (auto split: sum.splits)

lemma length_to_datetime: "to_datetime pd col = Inr ds \<Longrightarrow> length ds = column_length col"
  by (auto simp: to_datetime_def length_cells dest: collect_length)

lemma to_datetime_cell_error: "to_datetime_cell pd v = Inl e \<Longrightarrow> e = DateParseError"
  by (cases v) (auto split: parsed.splits)

lemma to_datetime_error: "to_datetime pd col = Inl e \<Longrightarrow> e = DateParseError"
  by (auto simp: to_datetime_def dest!: collect_Inl dest: to_datetime_cell_error[OF sym])

text \<open>
  What \<open>pd.to_datetime\<close> returns, cell by cell: the dates that were there, parsed.
\<close>

lemma to_datetime_cells:
  "to_datetime pd col = Inr ds \<longleftrightarrow> map (to_datetime_cell pd) (cells col) = map Inr ds"
  by (simp add: to_datetime_def collect_Inr_iff)

lemma same_except_refl: "same_except cs d d"
  by (simp add: same_except_def)

lemma same_except_setcol:
  assumes "map_of d c = Some old" "column_length col = column_length old" "c \<in> cs"
  shows "same_except cs d (setcol c col d)"
  using assms by (auto simp: same_except_def names_setcol getcol_Inr_iff map_of_setcol)

lemma same_except_trans:
  "same_except cs d d1 \<Longrightarrow> same_except cs d1 d2 \<Longrightarrow> same_except cs d d2"
  by (simp add: same_except_def)

text \<open>
  The frame after Sales Trend Over Time: as it was when the strategy raised before the
  assignment, and else with the \<open>Date\<close> column replaced by its dates, parsed.
\<close>

lemma SalesTrends_frame_after:
  "fst (SalesTrendsOverTime pd data) =
     (case getcol data ''Date'' of
        Inl e \<Rightarrow> data
      | Inr dcol \<Rightarrow>
          (case to_datetime pd dcol of
             Inl e \<Rightarrow> data
           | Inr ds \<Rightarrow> setcol ''Date'' (DateCol ds) data))"
  by (simp add: SalesTrendsOverTime_def Let_def split: sum.splits)

lemma MonthlySales_frame_after:
  "fst (MonthlySalesDistribution pd data) =
     (case getcol data ''Date'' of
        Inl e \<Rightarrow> data
      | Inr dcol \<Rightarrow>
          (case to_datetime pd dcol of
             Inl e \<Rightarrow> data
           | Inr ds \<Rightarrow> setcol ''Date'' (DateCol ds) data))"
  by (simp add: MonthlySalesDistribution_def Let_def split: sum.splits)

lemma SalesTrends_frame: "same_except {''Date''} data (fst (SalesTrendsOverTime pd data))"
  by (auto simp: SalesTrends_frame_after same_except_refl getcol_Inr_iff
      length_to_datetime intro!: same_except_setcol split: sum.splits)

lemma MonthlySales_frame: "same_except {''Date''} data (fst (MonthlySalesDistribution pd data))"
  by (auto simp: MonthlySales_frame_after same_except_refl getcol_Inr_iff
      length_to_datetime intro!: same_except_setcol split: sum.splits)

lemma convert_columns_frame:
  "set cs \<subseteq> S \<Longrightarrow> same_except S data (fst (convert_columns pyfloat cs data))"
proof (induction cs arbitrary: data)
  case Nil
  then show ?case by (simp add: same_except_refl)
next
  case (Cons c cs)
  show ?case
  proof (cases "getcol data c")
    case (Inl e)
    then show ?thesis by (simp add: same_except_refl)
  next
    case (Inr col)
    let ?d1 = "setcol c (NumCol (map (convert_currency pyfloat) (cells col))) data"
    have "same_except S data ?d1"
      using Inr Cons.prems by (intro same_except_setcol[where old = col]) (auto simp: getcol_Inr_iff length_cells)
    moreover have "same_except S ?d1 (fst (convert_columns pyfloat cs ?d1))"
      using Cons.prems by (intro Cons.IH) simp
    ultimately show ?thesis
      using Inr by (simp add: same_except_trans)
  qed
qed

lemma Correlation_frame_after:
  "fst (CorrelationAnalysis pyfloat corr data) = fst (convert_columns pyfloat corr_columns data)"
  by (simp add: CorrelationAnalysis_def split: prod.splits sum.splits)

lemma Correlation_frame:
  "same_except (set corr_columns) data (fst (CorrelationAnalysis pyfloat corr data))"
  by (simp add: Correlation_frame_after convert_columns_frame)

text \<open>
  The frame after the loop of the correlation strategy, when the frame has all the
  columns the loop names: each of them holds the results of \<open>convert_currency\<close> on its
  cells, and a column that held numbers holds \<open>nan\<close> only.
\<close>

lemma convert_columns_result:
  assumes "distinct cs" "\<And>c. c \<in> set cs \<Longrightarrow> map_of data c \<noteq> None"
  shows "snd (convert_columns pyfloat cs data) = Inr ()
         \<and> (\<forall>c\<in>set cs. map_of (fst (convert_columns pyfloat cs data)) c
               = map_option (\<lambda>old. NumCol (map (convert_currency pyfloat) (cells old))) (map_of data c))"
  using assms
proof (induction cs arbitrary: data)
  case Nil
  then show ?case by simp
next
  case (Cons c0 cs)
  from Cons.prems(2)[of c0] obtain col where col: "map_of data c0 = Some col" by auto
  let ?new = "NumCol (map (convert_currency pyfloat) (cells col))"
  let ?d1 = "setcol c0 ?new data"
  have step: "convert_columns pyfloat (c0 # cs) data = convert_columns pyfloat cs ?d1"
    using col by (simp add: getcol_def)
  have other: "map_of ?d1 c = map_of data c" if "c \<in> set cs" for c
    using that Cons.prems(1) by (auto simp: map_of_setcol)
  have IH: "snd (convert_columns pyfloat cs ?d1) = Inr ()
         \<and> (\<forall>c\<in>set cs. map_of (fst (convert_columns pyfloat cs ?d1)) c
               = map_option (\<lambda>old. NumCol (map (convert_currency pyfloat) (cells old))) (map_of ?d1 c))"
    using Cons.prems by (intro Cons.IH) (auto simp: map_of_setcol)
  have "same_except (set cs) ?d1 (fst (convert_columns pyfloat cs ?d1))"
    by (rule convert_columns_frame) simp
  moreover have "c0 \<notin> set cs" using Cons.prems(1) by simp
  ultimately have "map_of (fst (convert_columns pyfloat cs ?d1)) c0 = Some ?new"
    by (simp add: same_except_def map_of_setcol)
  with IH col show ?case
    unfolding step by (auto simp: other)
qed

lemma apply_numeric_column:
  "map (convert_currency pyfloat) (cells (NumCol vs)) = map (\<lambda>v. None) vs"
  by (induction vs) (auto simp: convert_currency_def split: option.splits)

lemma Correlation_numeric_column:
  assumes "\<And>c. c \<in> set corr_columns \<Longrightarrow> map_of data c \<noteq> None"
    and "c \<in> set corr_columns" "map_of data c = Some (NumCol vs)"
  shows "map_of (fst (CorrelationAnalysis pyfloat corr data)) c = Some (NumCol (map (\<lambda>v. None) vs))"
proof -
  have "distinct corr_columns" by (simp add: corr_columns_def)
  from convert_columns_result[OF this assms(1), of pyfloat] assms(2,3) show ?thesis
    by (simp add: Correlation_frame_after apply_numeric_column del: cells.simps)
qed

lemma strategies_keep_frame:
  "fst (ProfitAnalysisByCountry pd data) = data
   \<and> fst (ProductPerformance pd data) = data
   \<and> fst (DiscountImpactOnSales data) = data
   \<and> fst (CountryWiseSalesDistribution pd data) = data
   \<and> same_except {''Date''} data (fst (SalesTrendsOverTime pd data))
   \<and> same_except (set corr_columns) data (fst (CorrelationAnalysis pyfloat corr data))"
proof -
  have "fst (ProfitAnalysisByCountry pd data) = data"
    by (simp add: ProfitAnalysisByCountry_def split: sum.splits)
  moreover have "fst (ProductPerformance pd data) = data"
    by (simp add: ProductPerformance_def split: sum.splits)
  moreover have "fst (DiscountImpactOnSales data) = data"
    by (simp add: DiscountImpactOnSales_def)
  moreover have "fst (CountryWiseSalesDistribution pd data) = data"
    by (simp add: CountryWiseSalesDistribution_def split: sum.splits)
  ultimately show ?thesis
    by (simp add: SalesTrends_frame Correlation_frame)
qed

section \<open>Grouped sums\<close>

lemma set_present: "set (present ks) = {k. Some k \<in> set ks}"
  by (induction ks rule: present.induct) auto

lemma present_sum: "sum_list (present vs) = sum_list (map nan_to_zero vs)"
  by (induction vs rule: present.induct) auto

lemma group_keys_set: "set (group_keys ks) = {k. Some k \<in> set ks}"
  by (simp add: group_keys_def set_present)

lemma group_keys_distinct: "distinct (group_keys ks)"
  by (simp add: group_keys_def)

lemma group_keys_sorted: "sorted (group_keys ks)"
  by (simp add: group_keys_def)

lemma group_keys_strict: "sorted_wrt (<) (group_keys ks)"
  using group_keys_sorted group_keys_distinct strict_sorted_iff by blast

lemma group_rows_category: "present (group_rows ks vs k) = category_rows ks vs (Some k)"
  by (simp add: group_rows_def category_rows_def)

lemma category_rows_map:
  assumes "\<And>k'. f k' = c' \<longleftrightarrow> k' = c"
  shows "category_rows (map f ks) vs c' = category_rows ks vs c"
proof (induction ks arbitrary: vs)
  case Nil
  then show ?case by (simp add: category_rows_def)
next
  case (Cons k ks)
  have sym: "c' = f k' \<longleftrightarrow> k' = c" for k'
    using assms[of k'] by auto
  show ?case
  proof (cases vs)
    case Nil
    then show ?thesis by (simp add: category_rows_def)
  next
    case (Cons v vs')
    with Cons.IH[of vs'] show ?thesis
      by (cases v) (auto simp: category_rows_def assms sym)
  qed
qed

lemma category_rows_sum:
  "sum_list (category_rows ks vs c) = (\<Sum>(k, v)\<leftarrow>zip ks vs. if k = c then nan_to_zero v else 0)"
proof -
  have "sum_list (present (map snd (filter (\<lambda>r. fst r = c) rows)))
        = (\<Sum>(k, v)\<leftarrow>rows. if k = c then nan_to_zero v else 0)" for rows
    by (induction rows) (auto simp: present_sum)
  then show ?thesis by (simp add: category_rows_def)
qed

lemma sum_list_delta:
  "distinct g \<Longrightarrow> k0 \<in> set g \<Longrightarrow> sum_list (map (\<lambda>k. if k = k0 then x else 0) g) = (x::'a::comm_monoid_add)"
proof (induction g)
  case Nil
  then show ?case by simp
next
  case (Cons a g)
  show ?case
  proof (cases "a = k0")
    case True
    with Cons.prems have "k0 \<notin> set g" by simp
    then have "sum_list (map (\<lambda>k. if k = k0 then x else 0) g) = 0"
      by (induction g) auto
    with True show ?thesis by simp
  next
    case False
    with Cons show ?thesis by simp
  qed
qed

lemma sum_category_sums:
  fixes rows :: "('k option \<times> ('n::comm_monoid_add) option) list"
  assumes "distinct g" "\<And>k v. (Some k, v) \<in> set rows \<Longrightarrow> k \<in> set g"
  shows "(\<Sum>k\<leftarrow>g. \<Sum>(k', v)\<leftarrow>rows. if k' = Some k then nan_to_zero v else 0)
         = (\<Sum>(k', v)\<leftarrow>rows. if k' = None then 0 else nan_to_zero v)"
  using assms(2)
proof (induction rows)
  case Nil
  then show ?case by simp
next
  case (Cons r rows)
  obtain a b where r: "r = (a, b)" by (cases r)
  have IH: "(\<Sum>k\<leftarrow>g. \<Sum>(k', v)\<leftarrow>rows. if k' = Some k then nan_to_zero v else 0)
         = (\<Sum>(k', v)\<leftarrow>rows. if k' = None then 0 else nan_to_zero v)"
    using Cons.prems by (intro Cons.IH) auto
  have "(\<Sum>k\<leftarrow>g. \<Sum>(k', v)\<leftarrow>r # rows. if k' = Some k then nan_to_zero v else 0)
        = (\<Sum>k\<leftarrow>g. (if a = Some k then nan_to_zero b else 0)
                  + (\<Sum>(k', v)\<leftarrow>rows. if k' = Some k then nan_to_zero v else 0))"
    by (simp add: r)
  also have "\<dots> = (\<Sum>k\<leftarrow>g. if a = Some k then nan_to_zero b else 0)
                  + (\<Sum>k\<leftarrow>g. \<Sum>(k', v)\<leftarrow>rows. if k' = Some k then nan_to_zero v else 0)"
    by (simp add: sum_list_addf)
  also have "(\<Sum>k\<leftarrow>g. if a = Some k then nan_to_zero b else 0) = (if a = None then 0 else nan_to_zero b)"
  proof (cases a)
    case None
    then show ?thesis by simp
  next
    case (Some k0)
    have "k0 \<in> set g" using Cons.prems[of k0 b] by (simp add: r Some)
    with assms(1) have "(\<Sum>k\<leftarrow>g. if k = k0 then nan_to_zero b else 0) = nan_to_zero b"
      by (rule sum_list_delta)
    moreover have "(\<lambda>k. if Some k0 = Some k then nan_to_zero b else 0) = (\<lambda>k. if k = k0 then nan_to_zero b else 0)"
      by auto
    ultimately show ?thesis by (simp add: Some)
  qed
  finally show ?case by (simp add: IH r)
qed

text \<open>
  Added up exactly, the sums of the groups make the sum over the rows whose key is
  present; when no key is missing, that is the sum over all rows.
\<close>

lemma sum_group_totals:
  fixes vs :: "('n::comm_monoid_add) option list"
  shows "(\<Sum>k\<leftarrow>group_keys ks. sum_list (category_rows ks vs (Some k))) = dated_total ks vs"
proof -
  have "(\<Sum>k\<leftarrow>group_keys ks. sum_list (category_rows ks vs (Some k)))
        = (\<Sum>k\<leftarrow>group_keys ks. \<Sum>(k', v)\<leftarrow>zip ks vs. if k' = Some k then nan_to_zero v else 0)"
    by (simp add: category_rows_sum)
  also have "\<dots> = (\<Sum>(k', v)\<leftarrow>zip ks vs. if k' = None then 0 else nan_to_zero v)"
    by (rule sum_category_sums) (auto simp: group_keys_distinct group_keys_set dest: set_zip_leftD)
  finally show ?thesis by (simp add: dated_total_def)
qed

lemma dated_total_map:
  assumes "\<And>d. f d = None \<longleftrightarrow> d = None"
  shows "dated_total (map f ds) vs = dated_total ds vs"
proof -
  have "(\<Sum>(d, v)\<leftarrow>map (\<lambda>(d, v). (f d, v)) rows. if d = None then 0 else nan_to_zero v)
        = (\<Sum>(d, v)\<leftarrow>rows. if d = None then 0 else nan_to_zero v)" for rows
    by (induction rows) (auto simp: assms)
  then show ?thesis by (simp add: dated_total_def zip_map1)
qed

lemma dated_total_all:
  assumes "None \<notin> set ds" "length ds = length vs"
  shows "dated_total ds vs = sum_list (map nan_to_zero vs)"
proof -
  have "dated_total ds vs = (\<Sum>(d, v)\<leftarrow>zip ds vs. nan_to_zero v)"
    unfolding dated_total_def using assms(1)
    by (intro arg_cong[where f = sum_list] map_cong) (auto dest: set_zip_leftD)
  also have "\<dots> = sum_list (map nan_to_zero (map snd (zip ds vs)))"
    by (simp add: comp_def case_prod_unfold)
  also have "\<dots> = sum_list (map nan_to_zero vs)"
    using assms(2) by simp
  finally show ?thesis .
qed

section \<open>Sales Trend Over Time\<close>

lemma SalesTrends_numeric:
  assumes "getcol data ''Date'' = Inr dcol" "to_datetime pd dcol = Inr ds"
    "getcol data ''Sales'' = Inr (NumCol vs)"
  shows "SalesTrendsOverTime pd data =
     (setcol ''Date'' (DateCol ds) data,
      Inr (monthly_rows pd ds vs (group_keys (map dt_year_month ds))))"
proof -
  have same: "getcol (setcol ''Date'' (DateCol ds) data) ''Sales'' = getcol data ''Sales''"
    by (rule getcol_setcol_other) simp
  show ?thesis
    unfolding SalesTrendsOverTime_def Let_def
    by (simp only: assms same sum.case group_sums.simps)
       (simp add: getcol_def monthly_rows_def group_rows_category)
qed

lemma dt_year_month_set:
  "{k. Some k \<in> set (map dt_year_month ds)} = {(y, m). \<exists>d ns. Some (y, m, d, ns) \<in> set ds}"
proof (intro set_eqI iffI; clarsimp simp: dt_year_month_def)
  fix y m t
  assume mem: "t \<in> set ds" and eq: "Some (y, m) = map_option (\<lambda>(y, m, d, ns). (y, m)) t"
  obtain d ns where "t = Some (y, m, d, ns)"
    using eq by (cases t) (auto split: prod.splits)
  with mem show "\<exists>d ns. Some (y, m, d, ns) \<in> set ds"
    by blast
next
  fix y m d ns
  assume "Some (y, m, d, ns) \<in> set ds"
  then show "Some (y, m) \<in> map_option (\<lambda>(y, m, d, ns). (y, m)) ` set ds"
    by force
qed

lemma monthly_total:
  fixes vs :: "('n::comm_monoid_add) option list"
  assumes "num_sum pd = sum_list"
  shows "frame_total (monthly_rows pd ds vs (group_keys (map dt_year_month ds))) ''TotalSales''
         = dated_total ds vs"
proof -
  have "frame_total (monthly_rows pd ds vs (group_keys (map dt_year_month ds))) ''TotalSales''
        = (\<Sum>k\<leftarrow>group_keys (map dt_year_month ds).
              sum_list (category_rows (map dt_year_month ds) vs (Some k)))"
    by (simp add: frame_total_def frame_cells_def monthly_rows_def assms comp_def)
  also have "\<dots> = dated_total (map dt_year_month ds) vs"
    by (rule sum_group_totals)
  also have "\<dots> = dated_total ds vs"
    by (rule dated_total_map) (simp add: dt_year_month_def)
  finally show ?thesis .
qed

section \<open>Sums by category\<close>

lemma key_cells_values: "category_values (key_cells kcol) = category_values (cells kcol)"
proof -
  have "category_values (map inj (group_keys ks))
           = category_values (map (case_option miss inj) ks)"
    if miss: "is_missing miss" and val: "\<And>x. \<not> is_missing (inj x)"
    for inj :: "'k::linorder \<Rightarrow> 'a pyval" and miss ks
  proof (intro set_eqI iffI)
    fix v
    assume "v \<in> category_values (map inj (group_keys ks))"
    then obtain x where "Some x \<in> set ks" "v = inj x"
      by (auto simp: category_values_def group_keys_set)
    then show "v \<in> category_values (map (case_option miss inj) ks)"
      by (force simp: category_values_def val)
  next
    fix v
    assume "v \<in> category_values (map (case_option miss inj) ks)"
    then obtain k where k: "k \<in> set ks" "v = case_option miss inj k" "\<not> is_missing v"
      by (auto simp: category_values_def)
    obtain x where "k = Some x"
      using k(2,3) miss by (cases k) auto
    with k show "v \<in> category_values (map inj (group_keys ks))"
      by (auto simp: category_values_def group_keys_set val)
  qed
  from this[of PyNaN PyNum] this[of PyNaN PyStr] this[of PyNaT PyTimestamp]
  show ?thesis by (cases kcol) simp_all
qed

lemma key_cells_distinct: "distinct (key_cells kcol)"
  by (cases kcol) (simp_all add: distinct_map group_keys_distinct inj_on_def)

lemma key_cells_present: "\<not> list_ex is_missing (key_cells kcol)"
  by (cases kcol) (simp_all add: list_ex_iff)

text \<open>The sums of a numeric column by the keys of a column: one for each key cell.\<close>

lemma sums_by_numeric:
  "sums_by pd kcol (NumCol vs) =
     Inr (map (\<lambda>v. PyNum (num_sum pd (category_rows (cells kcol) vs v))) (key_cells kcol))"
proof (cases kcol)
  case (NumCol ks)
  have eq: "category_rows (map (case_option PyNaN PyNum) ks) vs (PyNum k) = category_rows ks vs (Some k)" for k
    by (rule category_rows_map) (auto split: option.splits)
  show ?thesis
    by (simp add: NumCol group_rows_category comp_def eq)
next
  case (ObjCol ks)
  have eq: "category_rows (map (case_option PyNaN PyStr) ks) vs (PyStr k) = category_rows ks vs (Some k)" for k
    by (rule category_rows_map) (auto split: option.splits)
  show ?thesis
    by (simp add: ObjCol group_rows_category comp_def eq)
next
  case (DateCol ks)
  have eq: "category_rows (map (case_option PyNaT PyTimestamp) ks) vs (PyTimestamp k) = category_rows ks vs (Some k)" for k
    by (rule category_rows_map) (auto split: option.splits)
  show ?thesis
    by (simp add: DateCol group_rows_category comp_def eq)
qed

lemma grouped1:
  assumes "map_of data k = Some kcol" "map_of data c = Some (NumCol vs)" "c \<noteq> k"
  shows "is_grouped pd data k [c]
           [(k, key_cells kcol),
            (c, map (\<lambda>v. PyNum (num_sum pd (category_rows (cells kcol) vs v))) (key_cells kcol))]"
  using assms
  by (simp add: is_grouped_def frame_cells_def key_column_def value_column_def
      key_cells_values key_cells_distinct key_cells_present)

lemma grouped2:
  assumes "map_of data k = Some kcol" "map_of data c1 = Some (NumCol vs1)"
    "map_of data c2 = Some (NumCol vs2)" "c1 \<noteq> k" "c2 \<noteq> k" "c1 \<noteq> c2"
  shows "is_grouped pd data k [c1, c2]
           [(k, key_cells kcol),
            (c1, map (\<lambda>v. PyNum (num_sum pd (category_rows (cells kcol) vs1 v))) (key_cells kcol)),
            (c2, map (\<lambda>v. PyNum (num_sum pd (category_rows (cells kcol) vs2 v))) (key_cells kcol))]"
  using assms
  by (simp add: is_grouped_def frame_cells_def key_column_def value_column_def
      key_cells_values key_cells_distinct key_cells_present)

text \<open>
  On a frame that has the category column and, as numeric columns, the columns to add up,
  each of the three strategies returns, leaves the frame as it was, and its result is
  grouped.
\<close>

lemma Profit_grouped:
  assumes "map_of data ''Country'' = Some kcol" "map_of data ''Profit'' = Some (NumCol ps)"
  shows "\<exists>out. ProfitAnalysisByCountry pd data = (data, Inr out)
               \<and> is_grouped pd data ''Country'' [''Profit''] out"
  using assms grouped1[OF assms, of pd]
  by (simp add: ProfitAnalysisByCountry_def getcol_def sums_by_numeric)

lemma Country_grouped:
  assumes "map_of data ''Country'' = Some kcol" "map_of data ''Sales'' = Some (NumCol ss)"
  shows "\<exists>out. CountryWiseSalesDistribution pd data = (data, Inr out)
               \<and> is_grouped pd data ''Country'' [''Sales''] out"
  using assms grouped1[OF assms, of pd]
  by (simp add: CountryWiseSalesDistribution_def getcol_def sums_by_numeric)

lemma Product_grouped:
  assumes "map_of data ''Product'' = Some kcol" "map_of data ''Sales'' = Some (NumCol ss)"
    "map_of data ''Profit'' = Some (NumCol ps)"
  shows "\<exists>out. ProductPerformance pd data = (data, Inr out)
               \<and> is_grouped pd data ''Product'' [''Sales'', ''Profit''] out"
  using assms grouped2[OF assms, of pd]
  by (simp add: ProductPerformance_def getcol_def sums_by_numeric)

section \<open>Missing columns\<close>

lemma project_missing:
  "list_ex (absent data) cs \<Longrightarrow> MissingColumn cs data (project cs data)"
proof (induction cs)
  case Nil
  then show ?case by simp
next
  case (Cons c cs)
  show ?case
  proof (cases "absent data c")
    case True
    then show ?thesis by (simp add: MissingColumn_def absent_def getcol_def)
  next
    case False
    with Cons have "MissingColumn cs data (project cs data)" by simp
    then obtain c' where "c' \<in> set cs" "absent data c'" "project cs data = Inl (KeyError c')"
      by (auto simp: MissingColumn_def list_ex_iff)
    with False show ?thesis
      by (auto simp: MissingColumn_def list_ex_iff absent_def getcol_def split: option.splits)
  qed
qed

lemma absent_setcol: "getcol data c = Inr old \<Longrightarrow> absent (setcol c col data) c' = absent data c'"
  by (auto simp: absent_def map_of_setcol getcol_Inr_iff)

lemma convert_columns_missing:
  "list_ex (absent data) cs \<Longrightarrow>
     \<exists>c\<in>set cs. absent data c \<and> snd (convert_columns pyfloat cs data) = Inl (KeyError c)"
proof (induction cs arbitrary: data)
  case Nil
  then show ?case by simp
next
  case (Cons c cs)
  show ?case
  proof (cases "getcol data c")
    case (Inl e)
    then have "map_of data c = None" "e = KeyError c"
      by (simp_all add: getcol_Inl_iff)
    with Inl show ?thesis by (simp add: absent_def)
  next
    case (Inr col)
    let ?d1 = "setcol c (NumCol (map (convert_currency pyfloat) (cells col))) data"
    have ab: "absent ?d1 c' = absent data c'" for c'
      using Inr by (rule absent_setcol)
    from Inr have "\<not> absent data c" by (simp add: absent_def getcol_Inr_iff)
    with Cons.prems have "list_ex (absent ?d1) cs" by (simp add: ab list_ex_iff)
    then obtain c' where "c' \<in> set cs" "absent ?d1 c'"
       "snd (convert_columns pyfloat cs ?d1) = Inl (KeyError c')"
      using Cons.IH by blast
    with Inr show ?thesis by (auto simp: ab)
  qed
qed

lemma Correlation_missing:
  assumes "list_ex (absent data) corr_columns"
  shows "MissingColumn corr_columns data (snd (CorrelationAnalysis pyfloat corr data))"
proof -
  obtain c where c: "c \<in> set corr_columns" "absent data c"
    "snd (convert_columns pyfloat corr_columns data) = Inl (KeyError c)"
    using convert_columns_missing[OF assms] by blast
  then have "snd (CorrelationAnalysis pyfloat corr data) = Inl (KeyError c)"
    by (cases "convert_columns pyfloat corr_columns data") (simp add: CorrelationAnalysis_def)
  with c show ?thesis by (auto simp: MissingColumn_def list_ex_iff)
qed

lemma Profit_missing:
  "list_ex (absent data) [''Country'', ''Profit''] \<Longrightarrow>
     MissingColumn [''Country'', ''Profit''] data (snd (ProfitAnalysisByCountry pd data))"
  by (auto simp: MissingColumn_def absent_def ProfitAnalysisByCountry_def getcol_def
      split: option.splits)

lemma Country_missing:
  "list_ex (absent data) [''Country'', ''Sales''] \<Longrightarrow>
     MissingColumn [''Country'', ''Sales''] data (snd (CountryWiseSalesDistribution pd data))"
  by (auto simp: MissingColumn_def absent_def CountryWiseSalesDistribution_def getcol_def
      split: option.splits)

lemma Product_missing:
  "list_ex (absent data) [''Product'', ''Sales'', ''Profit''] \<Longrightarrow>
     MissingColumn [''Product'', ''Sales'', ''Profit''] data (snd (ProductPerformance pd data))"
  by (auto simp: MissingColumn_def absent_def ProductPerformance_def getcol_def
      split: option.splits)

lemma Discount_missing:
  "list_ex (absent data) [''Discount Band'', ''Sales'', ''Profit''] \<Longrightarrow>
     MissingColumn [''Discount Band'', ''Sales'', ''Profit''] data (snd (DiscountImpactOnSales data))"
  unfolding DiscountImpactOnSales_def snd_conv by (rule project_missing)

lemma SalesTrends_missing:
  assumes "list_ex (absent data) [''Date'', ''Sales'']" "dates_parse pd data"
  shows "MissingColumn [''Date'', ''Sales''] data (snd (SalesTrendsOverTime pd data))"
proof (cases "map_of data ''Date''")
  case None
  then show ?thesis
    by (simp add: MissingColumn_def absent_def SalesTrendsOverTime_def getcol_def)
next
  case (Some dcol)
  with assms(2) obtain ds where ds: "to_datetime pd dcol = Inr ds"
    by (auto simp: dates_parse_def split: sum.splits)
  from Some assms(1) have s: "map_of data ''Sales'' = None" by (simp add: absent_def)
  have "getcol (setcol ''Date'' (DateCol ds) data) ''Sales'' = Inl (KeyError ''Sales'')"
    using s by (simp add: getcol_def map_of_setcol)
  then have "snd (SalesTrendsOverTime pd data) = Inl (KeyError ''Sales'')"
    using Some ds by (simp add: SalesTrendsOverTime_def Let_def getcol_Inr_iff[THEN iffD2])
  with s show ?thesis by (simp add: MissingColumn_def absent_def)
qed

lemma SalesTrends_bad_date:
  assumes "\<not> dates_parse pd data"
  shows "SalesTrendsOverTime pd data = (data, Inl DateParseError)"
proof -
  from assms obtain dcol e where d: "map_of data ''Date'' = Some dcol" "to_datetime pd dcol = Inl e"
    by (auto simp: dates_parse_def split: option.splits sum.splits)
  then have "e = DateParseError" by (simp add: to_datetime_error)
  with d show ?thesis
    by (simp add: SalesTrendsOverTime_def getcol_Inr_iff[THEN iffD2])
qed

lemma Profit_succeeds:
  assumes "\<not> absent data ''Country''" "map_of data ''Profit'' = Some (NumCol ps)"
  shows "\<exists>out. ProfitAnalysisByCountry pd data = (data, Inr out) \<and> is_grouped pd data ''Country'' [''Profit''] out"
proof -
  from assms(1) obtain kcol where k: "map_of data ''Country'' = Some kcol"
    by (auto simp: absent_def)
  from k assms(2) show ?thesis by (rule Profit_grouped)
qed

section \<open>Currency normalization\<close>

text \<open>
  On a text cell \<open>convert_currency\<close> removes the commas and dollar signs and returns
  what \<open>float\<close> makes of the rest, or \<open>nan\<close> when the rest is blank, is the placeholder
  \<open>-\<close> or does not parse; on every other cell it returns \<open>nan\<close>.
\<close>

lemma convert_currency_text:
  "convert_currency pyfloat (PyStr s) =
     (let val = remove_char (CHR ''$'') (remove_char (CHR '','') s)
      in if strip val = '''' \<or> strip val = ''-'' then None
         else (case pyfloat val of Inl e \<Rightarrow> None | Inr r \<Rightarrow> r))"
  by (simp add: convert_currency_def Let_def)

lemma convert_currency_not_text:
  "\<forall>s. val \<noteq> PyStr s \<Longrightarrow> convert_currency pyfloat val = None"
  by (cases val) (simp_all add: convert_currency_def)

lemma convert_currency_example:
  "convert_currency pyfloat (PyStr '' $1,618.50 '') =
     (case pyfloat '' 1618.50 '' of Inl e \<Rightarrow> None | Inr r \<Rightarrow> r)"
  "convert_currency pyfloat (PyStr '' $-   '') = None"
  "convert_currency pyfloat (PyStr '''') = None"
  by (simp_all add: convert_currency_def remove_char_def strip_def py_whitespace_def)

section \<open>What the correlation is computed on\<close>

text \<open>
  When the correlation strategy returns, \<open>corr\<close> has been applied to the frame of the
  seven columns, in the order of the source, each of them numeric after normalization.
\<close>

lemma convert_columns_numeric:
  "convert_columns pyfloat cs data = (data1, Inr u) \<Longrightarrow> c \<in> set cs \<Longrightarrow>
     \<exists>vs. map_of data1 c = Some (NumCol vs)"
proof (induction cs arbitrary: data)
  case Nil
  then show ?case by simp
next
  case (Cons c0 cs)
  from Cons.prems(1) obtain col where col: "getcol data c0 = Inr col"
    by (cases "getcol data c0") auto
  let ?d1 = "setcol c0 (NumCol (map (convert_currency pyfloat) (cells col))) data"
  have run: "convert_columns pyfloat cs ?d1 = (data1, Inr u)"
    using Cons.prems(1) col by simp
  show ?case
  proof (cases "c \<in> set cs")
    case True
    with run show ?thesis by (rule Cons.IH)
  next
    case False
    with Cons.prems(2) have c: "c = c0" by simp
    have "same_except (set cs) ?d1 (fst (convert_columns pyfloat cs ?d1))"
      by (rule convert_columns_frame) simp
    with False run have "map_of data1 c = map_of ?d1 c"
      by (simp add: same_except_def)
    then show ?thesis by (simp add: c map_of_setcol)
  qed
qed

lemma project_present:
  "(\<And>c. c \<in> set cs \<Longrightarrow> map_of data c \<noteq> None) \<Longrightarrow>
     project cs data = Inr (map (\<lambda>c. (c, the (map_of data c))) cs)"
  by (induction cs) (auto simp: getcol_def split: option.splits)

lemma Correlation_input:
  assumes "CorrelationAnalysis pyfloat corr data = (data1, Inr m)"
  shows "\<exists>sub. m = corr sub \<and> map fst sub = corr_columns
           \<and> list_all (\<lambda>(c, col). map_of data1 c = Some col \<and> (\<exists>vs. col = NumCol vs)) sub"
proof -
  from assms obtain u where run: "convert_columns pyfloat corr_columns data = (data1, Inr u)"
    by (auto simp: CorrelationAnalysis_def split: prod.splits sum.splits)
  have num: "\<exists>vs. map_of data1 c = Some (NumCol vs)" if "c \<in> set corr_columns" for c
    using run that by (rule convert_columns_numeric)
  then have "project corr_columns data1 = Inr (map (\<lambda>c. (c, the (map_of data1 c))) corr_columns)"
    by (intro project_present) auto
  with assms run have "m = corr (map (\<lambda>c. (c, the (map_of data1 c))) corr_columns)"
    by (simp add: CorrelationAnalysis_def)
  moreover have "list_all (\<lambda>(c, col). map_of data1 c = Some col \<and> (\<exists>vs. col = NumCol vs))
      (map (\<lambda>c. (c, the (map_of data1 c))) corr_columns)"
    using num by (fastforce simp: list_all_iff)
  ultimately show ?thesis
    by (intro exI[of _ "map (\<lambda>c. (c, the (map_of data1 c))) corr_columns"]) (simp add: comp_def)
qed

section \<open>Evaluating the strategies on the sample frames\<close>

lemmas eval_defs =
  getcol_def to_datetime_def iso_date_def digit_val_def days_in_month_def dt_year_month_def
  group_keys_def group_rows_def sample_pandas_def glue_text_def

lemma sample_trend:
  "SalesTrendsOverTime sample_pandas sample_frame =
     ([(''Date'', DateCol [Some (2020, 1, 15, 0), Some (2020, 2, 3, 0), Some (2020, 1, 20, 0)]),
       (''Country'', ObjCol [Some ''France'', Some ''Canada'', Some ''France'']),
       (''Product'', ObjCol [Some ''Paseo'', Some ''Velo'', Some ''Velo'']),
       (''Discount Band'', ObjCol [Some ''Low'', None, Some ''High'']),
       (''Sales'', NumCol [Some 100, Some 30, Some 50]),
       (''Profit'', NumCol [Some 10, Some 3, Some 5])],
      Inr [(''Date'', [PyTimestamp (2020, 1, 1, 0), PyTimestamp (2020, 2, 1, 0)]),
           (''Year'', [PyInt 2020, PyInt 2020]),
           (''Month'', [PyInt 1, PyInt 2]),
           (''TotalSales'', [PyNum 150, PyNum 30])])"
  by (simp add: SalesTrendsOverTime_def sample_frame_def eval_defs)

lemma sample_profit:
  "ProfitAnalysisByCountry sample_pandas sample_frame =
     (sample_frame, Inr [(''Country'', [PyStr ''Canada'', PyStr ''France'']),
                         (''Profit'', [PyNum 3, PyNum 15])])"
  by (simp add: ProfitAnalysisByCountry_def sample_frame_def eval_defs)

lemma sample_country:
  "CountryWiseSalesDistribution sample_pandas sample_frame =
     (sample_frame, Inr [(''Country'', [PyStr ''Canada'', PyStr ''France'']),
                         (''Sales'', [PyNum 30, PyNum 150])])"
  by (simp add: CountryWiseSalesDistribution_def sample_frame_def eval_defs)

lemma sample_product:
  "ProductPerformance sample_pandas sample_frame =
     (sample_frame, Inr [(''Product'', [PyStr ''Paseo'', PyStr ''Velo'']),
                         (''Sales'', [PyNum 100, PyNum 80]),
                         (''Profit'', [PyNum 10, PyNum 8])])"
  by (simp add: ProductPerformance_def sample_frame_def eval_defs)

lemma sample_dates_parse:
  "dates_parse sample_pandas sample_no_sales" "\<not> dates_parse sample_pandas sample_bad_date"
  by (simp_all add: dates_parse_def sample_no_sales_def sample_bad_date_def eval_defs)

text \<open>
  On a frame whose \<open>Sales\<close> column is text the strategies return as well: the totals are
  the texts of each group, glued together.
\<close>

lemma sample_text_trend:
  "snd (SalesTrendsOverTime sample_pandas sample_text_sales) =
     Inr [(''Date'', [PyTimestamp (2020, 1, 1, 0), PyTimestamp (2020, 2, 1, 0)]),
          (''Year'', [PyInt 2020, PyInt 2020]),
          (''Month'', [PyInt 1, PyInt 2]),
          (''TotalSales'', [PyStr ''$100$50'', PyStr ''$30''])]"
  by (simp add: SalesTrendsOverTime_def sample_text_sales_def eval_defs)

lemma sample_text_country:
  "snd (CountryWiseSalesDistribution sample_pandas sample_text_sales) =
     Inr [(''Country'', [PyStr ''Canada'', PyStr ''France'']),
          (''Sales'', [PyStr ''$30'', PyStr ''$100$50''])]"
  by (simp add: CountryWiseSalesDistribution_def sample_text_sales_def eval_defs)

text \<open>
  The correlation strategy on a frame with currency text: text is normalized, blanks,
  the placeholder and unparseable text become \<open>nan\<close>, and so does every cell of the
  \<open>Sales\<close> column, which held numbers.
\<close>

lemma sample_correlation:
  "fst (CorrelationAnalysis float_of_digits corr sample_financials) =
     [(''Country'', ObjCol [Some ''France'', Some ''Canada'']),
      (''Units Sold'', NumCol [Some 1618, None]),
      (''Manufacturing Price'', NumCol [Some 3, Some 5]),
      (''Sale Price'', NumCol [Some 20, Some 15]),
      (''Gross Sales'', NumCol [Some 32360, None]),
      (''Discounts'', NumCol [None, None]),
      (''Sales'', NumCol [None, None]),
      (''Profit'', NumCol [Some (- 2000), None])]"
  by (simp add: CorrelationAnalysis_def corr_columns_def sample_financials_def getcol_def
      convert_currency_def remove_char_def strip_def py_whitespace_def float_of_digits_def
      digit_val_def split: prod.splits)

section \<open>The claims about the aggregation strategies\<close>

text \<open>
  Claim C1, at the input where \<open>convert_currency\<close> departs from it. The claim asks that
  exactly the blank, placeholder and unparseable values become the missing-value marker,
  so that a value that is a number already is preserved. A cell that holds a number (the
  cells of a column that \<open>read_csv\<close> has read as \<open>int64\<close> or \<open>float64\<close>, such as the
  \<open>Sales\<close> column the other strategies add up) has no method \<open>replace\<close>: the call raises
  inside the \<open>try\<close> block, and the function returns \<open>nan\<close> for every number. The
  lemmas \<open>convert_currency_text\<close> and \<open>sample_correlation\<close> above show the rest of the
  claim on text cells; no cell makes the function raise, since its result is a value.
\<close>

theorem convert_currency_numeric_cell:
  "convert_currency pyfloat (PyNum x) = None"
  by (simp add: convert_currency_def)

text \<open>
  Claim C4. On a frame whose \<open>Date\<close> cells all parse and whose \<open>Sales\<close> column is
  numeric, Sales Trend Over Time returns a frame with exactly the columns \<open>Date\<close>,
  \<open>Year\<close>, \<open>Month\<close>, \<open>TotalSales\<close>, in this order, and one row for each (year, month)
  in which a date of the input falls, the rows in strictly ascending order of
  (year, month); \<open>TotalSales\<close> is the sum of the \<open>Sales\<close> column over the rows of that
  month (the sum as pandas computes it, \<open>num_sum\<close>, of exactly the sales present in
  these rows) and \<open>Date\<close> the first day of the month. With a numeric \<open>Sales\<close> column the
  strategy returns in no other case. In particular rows dated 2020-01 (sales 100),
  2020-01 (sales 50) and 2020-02 (sales 30) give the two rows (2020-01-01, 2020, 1, 150)
  and (2020-02-01, 2020, 2, 30).
\<close>

theorem SalesTrendsOverTime_rows:
  "(getcol data ''Date'' = Inr dcol \<and> to_datetime pd dcol = Inr ds
      \<and> getcol data ''Sales'' = Inr (NumCol vs) \<longrightarrow>
      (\<exists>g. sorted_wrt (<) g
         \<and> set g = {(y, m). \<exists>d ns. Some (y, m, d, ns) \<in> set ds}
         \<and> snd (SalesTrendsOverTime pd data) = Inr (monthly_rows pd ds vs g)))
   \<and> (getcol data ''Sales'' = Inr (NumCol vs)
      \<and> SalesTrendsOverTime pd data = (data1, Inr out) \<longrightarrow>
      (\<exists>dcol ds g.
         getcol data ''Date'' = Inr dcol \<and> to_datetime pd dcol = Inr ds
         \<and> sorted_wrt (<) g
         \<and> set g = {(y, m). \<exists>d ns. Some (y, m, d, ns) \<in> set ds}
         \<and> out = monthly_rows pd ds vs g))
   \<and> snd (SalesTrendsOverTime sample_pandas
        [(''Date'', ObjCol [Some ''2020-01-15'', Some ''2020-01-20'', Some ''2020-02-03'']),
         (''Sales'', NumCol [Some 100, Some 50, Some 30])])
     = Inr [(''Date'', [PyTimestamp (2020, 1, 1, 0), PyTimestamp (2020, 2, 1, 0)]),
            (''Year'', [PyInt 2020, PyInt 2020]),
            (''Month'', [PyInt 1, PyInt 2]),
            (''TotalSales'', [PyNum 150, PyNum 30])]"
proof (intro conjI impI)
  assume "getcol data ''Date'' = Inr dcol \<and> to_datetime pd dcol = Inr ds
      \<and> getcol data ''Sales'' = Inr (NumCol vs)"
  then have "snd (SalesTrendsOverTime pd data)
      = Inr (monthly_rows pd ds vs (group_keys (map dt_year_month ds)))"
    by (simp add: SalesTrends_numeric)
  moreover have "set (group_keys (map dt_year_month ds)) = {(y, m). \<exists>d ns. Some (y, m, d, ns) \<in> set ds}"
    by (simp only: group_keys_set dt_year_month_set)
  ultimately show "\<exists>g. sorted_wrt (<) g
         \<and> set g = {(y, m). \<exists>d ns. Some (y, m, d, ns) \<in> set ds}
         \<and> snd (SalesTrendsOverTime pd data) = Inr (monthly_rows pd ds vs g)"
    using group_keys_strict by blast
next
  assume a: "getcol data ''Sales'' = Inr (NumCol vs)
      \<and> SalesTrendsOverTime pd data = (data1, Inr out)"
  then obtain dcol where d: "getcol data ''Date'' = Inr dcol"
    by (cases "getcol data ''Date''") (auto simp: SalesTrendsOverTime_def)
  with a obtain ds where ds: "to_datetime pd dcol = Inr ds"
    by (cases "to_datetime pd dcol") (auto simp: SalesTrendsOverTime_def)
  from a have s: "getcol data ''Sales'' = Inr (NumCol vs)"
    and r: "SalesTrendsOverTime pd data = (data1, Inr out)"
    by simp_all
  from SalesTrends_numeric[OF d ds s] r
  have "out = monthly_rows pd ds vs (group_keys (map dt_year_month ds))"
    by simp
  moreover have "set (group_keys (map dt_year_month ds)) = {(y, m). \<exists>d ns. Some (y, m, d, ns) \<in> set ds}"
    by (simp only: group_keys_set dt_year_month_set)
  ultimately show "\<exists>dcol ds g.
         getcol data ''Date'' = Inr dcol \<and> to_datetime pd dcol = Inr ds
         \<and> sorted_wrt (<) g
         \<and> set g = {(y, m). \<exists>d ns. Some (y, m, d, ns) \<in> set ds}
         \<and> out = monthly_rows pd ds vs g"
    using d ds group_keys_strict by blast
next
  show "snd (SalesTrendsOverTime sample_pandas
        [(''Date'', ObjCol [Some ''2020-01-15'', Some ''2020-01-20'', Some ''2020-02-03'']),
         (''Sales'', NumCol [Some 100, Some 50, Some 30])])
     = Inr [(''Date'', [PyTimestamp (2020, 1, 1, 0), PyTimestamp (2020, 2, 1, 0)]),
            (''Year'', [PyInt 2020, PyInt 2020]),
            (''Month'', [PyInt 1, PyInt 2]),
            (''TotalSales'', [PyNum 150, PyNum 30])]"
    by (simp add: SalesTrendsOverTime_def eval_defs)
qed

theorem SalesTrendsOverTime_rows_witness:
  "(\<exists>g. sorted_wrt (<) g
     \<and> set g = {(y, m). \<exists>d ns. Some (y, m, d, ns)
                    \<in> set ([Some (2020, 1, 15, 0), Some (2020, 2, 3, 0), Some (2020, 1, 20, 0)]
                            :: timestamp option list)}
     \<and> snd (SalesTrendsOverTime sample_pandas sample_frame)
         = Inr (monthly_rows sample_pandas
                  [Some (2020, 1, 15, 0), Some (2020, 2, 3, 0), Some (2020, 1, 20, 0)]
                  [Some 100, Some 30, Some 50] g))
   \<and> (\<exists>dcol ds g.
         getcol sample_frame ''Date'' = Inr dcol \<and> to_datetime sample_pandas dcol = Inr ds
         \<and> sorted_wrt (<) g
         \<and> set g = {(y, m). \<exists>d ns. Some (y, m, d, ns) \<in> set ds}
         \<and> [(''Date'', [PyTimestamp (2020, 1, 1, 0), PyTimestamp (2020, 2, 1, 0)]),
            (''Year'', [PyInt 2020, PyInt 2020]),
            (''Month'', [PyInt 1, PyInt 2]),
            (''TotalSales'', [PyNum 150, PyNum 30])]
           = monthly_rows sample_pandas ds [Some 100, Some 30, Some 50] g)"
proof -
  have h: "getcol sample_frame ''Date''
          = Inr (ObjCol [Some ''2020-01-15'', Some ''2020-02-03'', Some ''2020-01-20''])
      \<and> to_datetime sample_pandas (ObjCol [Some ''2020-01-15'', Some ''2020-02-03'', Some ''2020-01-20''])
          = Inr [Some (2020, 1, 15, 0), Some (2020, 2, 3, 0), Some (2020, 1, 20, 0)]
      \<and> getcol sample_frame ''Sales'' = Inr (NumCol [Some 100, Some 30, Some 50])"
    by (simp add: sample_frame_def eval_defs)
  then have k: "getcol sample_frame ''Sales'' = Inr (NumCol [Some 100, Some 30, Some 50])
      \<and> SalesTrendsOverTime sample_pandas sample_frame =
          ([(''Date'', DateCol [Some (2020, 1, 15, 0), Some (2020, 2, 3, 0), Some (2020, 1, 20, 0)]),
            (''Country'', ObjCol [Some ''France'', Some ''Canada'', Some ''France'']),
            (''Product'', ObjCol [Some ''Paseo'', Some ''Velo'', Some ''Velo'']),
            (''Discount Band'', ObjCol [Some ''Low'', None, Some ''High'']),
            (''Sales'', NumCol [Some 100, Some 30, Some 50]),
            (''Profit'', NumCol [Some 10, Some 3, Some 5])],
           Inr [(''Date'', [PyTimestamp (2020, 1, 1, 0), PyTimestamp (2020, 2, 1, 0)]),
                (''Year'', [PyInt 2020, PyInt 2020]),
                (''Month'', [PyInt 1, PyInt 2]),
                (''TotalSales'', [PyNum 150, PyNum 30])])"
    by (simp add: sample_trend)
  from SalesTrendsOverTime_rows[THEN conjunct1, THEN mp, OF h]
    SalesTrendsOverTime_rows[THEN conjunct2, THEN conjunct1, THEN mp, OF k]
  show ?thesis by (rule conjI)
qed

text \<open>
  Claim C5, as amended. Rows whose \<open>Date\<close> is missing once parsed (\<open>NaT\<close>: a blank
  cell, or a text such as \<open>'NaT'\<close>) belong to no (year, month) group, so their sales are
  in no total. On a frame whose \<open>Date\<close> cells all parse and whose \<open>Sales\<close> column is
  numeric and added up exactly (integers: \<open>float64\<close> sums are rounded, and equal the
  exact sum only up to rounding), the sum of the \<open>TotalSales\<close> column of the result
  equals the sum of the \<open>Sales\<close> column over the rows whose date is not missing; when no
  date is missing (and the two columns have one cell per row) it equals the sum of the
  \<open>Sales\<close> column of the input.
\<close>

theorem SalesTrends_conservation:
  fixes pd :: "('n::comm_monoid_add) pandas"
  assumes "getcol data ''Date'' = Inr dcol" "to_datetime pd dcol = Inr ds"
    and "getcol data ''Sales'' = Inr (NumCol vs)"
    and "num_sum pd = sum_list"
  shows "\<exists>out. snd (SalesTrendsOverTime pd data) = Inr out
           \<and> frame_total out ''TotalSales'' = dated_total ds vs
           \<and> (None \<notin> set ds \<and> length ds = length vs \<longrightarrow>
                frame_total out ''TotalSales'' = column_total data ''Sales'')"
proof -
  let ?out = "monthly_rows pd ds vs (group_keys (map dt_year_month ds))"
  have run: "snd (SalesTrendsOverTime pd data) = Inr ?out"
    using assms(1-3) by (simp add: SalesTrends_numeric)
  have tot: "frame_total ?out ''TotalSales'' = dated_total ds vs"
    using assms(4) by (rule monthly_total)
  have "column_total data ''Sales'' = sum_list (map nan_to_zero vs)"
    using assms(3) by (simp add: column_total_def value_column_def getcol_Inr_iff)
  then have "frame_total ?out ''TotalSales'' = column_total data ''Sales''"
    if "None \<notin> set ds \<and> length ds = length vs"
    using that tot by (simp add: dated_total_all)
  with run tot show ?thesis by blast
qed

theorem SalesTrends_conservation_witness:
  "\<exists>out. snd (SalesTrendsOverTime sample_pandas sample_frame) = Inr out
         \<and> frame_total out ''TotalSales''
             = dated_total
                 ([Some (2020, 1, 15, 0), Some (2020, 2, 3, 0), Some (2020, 1, 20, 0)]
                    :: timestamp option list)
                 [Some 100, Some 30, Some 50]
         \<and> frame_total out ''TotalSales'' = column_total sample_frame ''Sales''"
proof -
  have h: "getcol sample_frame ''Date''
          = Inr (ObjCol [Some ''2020-01-15'', Some ''2020-02-03'', Some ''2020-01-20''])"
      "to_datetime sample_pandas (ObjCol [Some ''2020-01-15'', Some ''2020-02-03'', Some ''2020-01-20''])
          = Inr [Some (2020, 1, 15, 0), Some (2020, 2, 3, 0), Some (2020, 1, 20, 0)]"
      "getcol sample_frame ''Sales'' = Inr (NumCol [Some 100, Some 30, Some 50])"
      "num_sum sample_pandas = sum_list"
    by (simp_all add: sample_frame_def eval_defs)
  from SalesTrends_conservation[OF h] show ?thesis
    by auto
qed

theorem SalesTrends_drops_undated_rows:
  "snd (SalesTrendsOverTime sample_pandas sample_undated)
     = Inr [(''Date'', [PyTimestamp (2020, 1, 1, 0)]),
            (''Year'', [PyInt 2020]),
            (''Month'', [PyInt 1]),
            (''TotalSales'', [PyNum 100])]
   \<and> frame_total [(''Date'', [PyTimestamp (2020, 1, 1, 0)]),
                  (''Year'', [PyInt 2020]),
                  (''Month'', [PyInt 1]),
                  (''TotalSales'', [PyNum (100::int)])] ''TotalSales''
     \<noteq> column_total sample_undated ''Sales''"
  by (simp add: SalesTrendsOverTime_def sample_undated_def eval_defs column_total_def
      value_column_def frame_total_def frame_cells_def)

text \<open>
  Claim C6. On a frame that has the category column and, as numeric columns, the columns
  to add up, each of Profit by Category, Distribution by Category and Performance by
  Entity returns a frame with one row for each distinct category value of the input (the
  set of category values of the output is that of the input, a missing cell being no
  value), in which each number is the sum, as pandas computes it, of the input column
  over exactly the rows of that category; the strategy leaves the frame it was given as it was, so that running
  it again on the frame it leaves gives the same result, and its result is the same on
  every frame that holds the same category and number columns.
\<close>

theorem category_sums:
  "(map_of data ''Country'' = Some kcol \<and> map_of data ''Profit'' = Some (NumCol ps) \<longrightarrow>
      (\<exists>out. ProfitAnalysisByCountry pd data = (data, Inr out)
             \<and> is_grouped pd data ''Country'' [''Profit''] out))
   \<and> (map_of data ''Country'' = Some kcol \<and> map_of data ''Sales'' = Some (NumCol ss) \<longrightarrow>
      (\<exists>out. CountryWiseSalesDistribution pd data = (data, Inr out)
             \<and> is_grouped pd data ''Country'' [''Sales''] out))
   \<and> (map_of data ''Product'' = Some ecol \<and> map_of data ''Sales'' = Some (NumCol ss)
        \<and> map_of data ''Profit'' = Some (NumCol ps) \<longrightarrow>
      (\<exists>out. ProductPerformance pd data = (data, Inr out)
             \<and> is_grouped pd data ''Product'' [''Sales'', ''Profit''] out))
   \<and> ProfitAnalysisByCountry pd (fst (ProfitAnalysisByCountry pd data))
        = ProfitAnalysisByCountry pd data
   \<and> CountryWiseSalesDistribution pd (fst (CountryWiseSalesDistribution pd data))
        = CountryWiseSalesDistribution pd data
   \<and> ProductPerformance pd (fst (ProductPerformance pd data)) = ProductPerformance pd data
   \<and> (map_of data' ''Country'' = map_of data ''Country''
        \<and> map_of data' ''Profit'' = map_of data ''Profit'' \<longrightarrow>
      snd (ProfitAnalysisByCountry pd data') = snd (ProfitAnalysisByCountry pd data))
   \<and> (map_of data' ''Country'' = map_of data ''Country''
        \<and> map_of data' ''Sales'' = map_of data ''Sales'' \<longrightarrow>
      snd (CountryWiseSalesDistribution pd data') = snd (CountryWiseSalesDistribution pd data))
   \<and> (map_of data' ''Product'' = map_of data ''Product''
        \<and> map_of data' ''Sales'' = map_of data ''Sales''
        \<and> map_of data' ''Profit'' = map_of data ''Profit'' \<longrightarrow>
      snd (ProductPerformance pd data') = snd (ProductPerformance pd data))"
proof -
  have keep: "fst (ProfitAnalysisByCountry pd data) = data"
    "fst (CountryWiseSalesDistribution pd data) = data"
    "fst (ProductPerformance pd data) = data"
    by (simp_all add: ProfitAnalysisByCountry_def CountryWiseSalesDistribution_def
        ProductPerformance_def split: sum.splits)
  have same: "snd (ProfitAnalysisByCountry pd data') = snd (ProfitAnalysisByCountry pd data)"
    if "map_of data' ''Country'' = map_of data ''Country''
        \<and> map_of data' ''Profit'' = map_of data ''Profit''"
    using that by (simp add: ProfitAnalysisByCountry_def getcol_def split: option.splits sum.splits)
  have same2: "snd (CountryWiseSalesDistribution pd data') = snd (CountryWiseSalesDistribution pd data)"
    if "map_of data' ''Country'' = map_of data ''Country''
        \<and> map_of data' ''Sales'' = map_of data ''Sales''"
    using that by (simp add: CountryWiseSalesDistribution_def getcol_def split: option.splits sum.splits)
  have same3: "snd (ProductPerformance pd data') = snd (ProductPerformance pd data)"
    if "map_of data' ''Product'' = map_of data ''Product''
        \<and> map_of data' ''Sales'' = map_of data ''Sales''
        \<and> map_of data' ''Profit'' = map_of data ''Profit''"
    using that by (simp add: ProductPerformance_def getcol_def split: option.splits sum.splits)
  show ?thesis
    using Profit_grouped[of data kcol ps pd] Country_grouped[of data kcol ss pd]
      Product_grouped[of data ecol ss ps pd] keep same same2 same3
    by (intro conjI impI) simp_all
qed

theorem category_sums_witness:
  "(\<exists>out. ProfitAnalysisByCountry sample_pandas sample_frame = (sample_frame, Inr out)
         \<and> is_grouped sample_pandas sample_frame ''Country'' [''Profit''] out)
   \<and> (\<exists>out. CountryWiseSalesDistribution sample_pandas sample_frame = (sample_frame, Inr out)
         \<and> is_grouped sample_pandas sample_frame ''Country'' [''Sales''] out)
   \<and> (\<exists>out. ProductPerformance sample_pandas sample_frame = (sample_frame, Inr out)
         \<and> is_grouped sample_pandas sample_frame ''Product'' [''Sales'', ''Profit''] out)
   \<and> is_grouped sample_pandas sample_frame ''Country'' [''Profit'']
        [(''Country'', [PyStr ''Canada'', PyStr ''France'']), (''Profit'', [PyNum 3, PyNum 15])]
   \<and> snd (ProfitAnalysisByCountry sample_pandas sample_no_sales)
        = snd (ProfitAnalysisByCountry sample_pandas sample_frame)"
proof -
  have cols: "map_of sample_frame ''Country'' = Some (ObjCol [Some ''France'', Some ''Canada'', Some ''France''])"
    "map_of sample_frame ''Product'' = Some (ObjCol [Some ''Paseo'', Some ''Velo'', Some ''Velo''])"
    "map_of sample_frame ''Sales'' = Some (NumCol [Some 100, Some 30, Some 50])"
    "map_of sample_frame ''Profit'' = Some (NumCol [Some 10, Some 3, Some 5])"
    by (simp_all add: sample_frame_def)
  note c = category_sums[where data = sample_frame and data' = sample_frame and pd = sample_pandas
      and kcol = "ObjCol [Some ''France'', Some ''Canada'', Some ''France'']"
      and ecol = "ObjCol [Some ''Paseo'', Some ''Velo'', Some ''Velo'']"
      and ss = "[Some 100, Some 30, Some 50]" and ps = "[Some 10, Some 3, Some 5]"]
  from c cols have 1: "\<exists>out. ProfitAnalysisByCountry sample_pandas sample_frame = (sample_frame, Inr out)
         \<and> is_grouped sample_pandas sample_frame ''Country'' [''Profit''] out"
    and 2: "\<exists>out. CountryWiseSalesDistribution sample_pandas sample_frame = (sample_frame, Inr out)
         \<and> is_grouped sample_pandas sample_frame ''Country'' [''Sales''] out"
    and 3: "\<exists>out. ProductPerformance sample_pandas sample_frame = (sample_frame, Inr out)
         \<and> is_grouped sample_pandas sample_frame ''Product'' [''Sales'', ''Profit''] out"
    by blast+
  from 1 have "is_grouped sample_pandas sample_frame ''Country'' [''Profit'']
        [(''Country'', [PyStr ''Canada'', PyStr ''France'']), (''Profit'', [PyNum 3, PyNum 15])]"
    by (simp add: sample_profit)
  moreover have "map_of sample_no_sales ''Country'' = map_of sample_frame ''Country''
      \<and> map_of sample_no_sales ''Profit'' = map_of sample_frame ''Profit''"
    by (simp add: sample_no_sales_def sample_frame_def)
  with category_sums[where data = sample_frame and data' = sample_no_sales and pd = sample_pandas]
  have "snd (ProfitAnalysisByCountry sample_pandas sample_no_sales)
        = snd (ProfitAnalysisByCountry sample_pandas sample_frame)"
    by blast
  ultimately show ?thesis using 1 2 3 by blast
qed

text \<open>
  Claim C7, as amended. A strategy run on a frame that lacks one of its required columns
  fails with the \<open>KeyError\<close> naming a required column that is absent
  (\<open>MissingColumn\<close>); for Sales Trend Over Time this holds when the \<open>Date\<close> column is
  absent or all its cells parse as dates, and when a \<open>Date\<close> cell does not parse the
  strategy fails with the date parse error instead, raised before the \<open>Sales\<close> column is
  looked up. The failure is confined to the strategy: on a frame that has \<open>Country\<close> and a
  numeric \<open>Profit\<close>, with or without \<open>Sales\<close>, Profit by Category succeeds, leaves the
  frame as it was and returns its grouped result.
\<close>

theorem missing_column:
  "(list_ex (absent data) [''Country'', ''Profit''] \<longrightarrow>
      MissingColumn [''Country'', ''Profit''] data (snd (ProfitAnalysisByCountry pd data)))
   \<and> (list_ex (absent data) [''Product'', ''Sales'', ''Profit''] \<longrightarrow>
      MissingColumn [''Product'', ''Sales'', ''Profit''] data (snd (ProductPerformance pd data)))
   \<and> (list_ex (absent data) [''Discount Band'', ''Sales'', ''Profit''] \<longrightarrow>
      MissingColumn [''Discount Band'', ''Sales'', ''Profit''] data (snd (DiscountImpactOnSales data)))
   \<and> (list_ex (absent data) [''Country'', ''Sales''] \<longrightarrow>
      MissingColumn [''Country'', ''Sales''] data (snd (CountryWiseSalesDistribution pd data)))
   \<and> (list_ex (absent data) corr_columns \<longrightarrow>
      MissingColumn corr_columns data (snd (CorrelationAnalysis pyfloat corr data)))
   \<and> (list_ex (absent data) [''Date'', ''Sales''] \<and> dates_parse pd data \<longrightarrow>
      MissingColumn [''Date'', ''Sales''] data (snd (SalesTrendsOverTime pd data)))
   \<and> (\<not> dates_parse pd data \<longrightarrow>
      snd (SalesTrendsOverTime pd data) = Inl DateParseError)
   \<and> (\<not> absent data ''Country'' \<and> map_of data ''Profit'' = Some (NumCol ps) \<longrightarrow>
      (\<exists>out. ProfitAnalysisByCountry pd data = (data, Inr out)
             \<and> is_grouped pd data ''Country'' [''Profit''] out))"
  using Profit_missing[of data pd] Product_missing[of data pd] Discount_missing[of data]
    Country_missing[of data pd] Correlation_missing[of data pyfloat corr]
    SalesTrends_missing[of data pd] SalesTrends_bad_date[of pd data]
    Profit_succeeds[of data ps pd]
  by (intro conjI impI) simp_all

theorem missing_column_witness:
  "MissingColumn [''Date'', ''Sales''] sample_no_sales (snd (SalesTrendsOverTime sample_pandas sample_no_sales))
   \<and> MissingColumn [''Country'', ''Sales''] sample_no_sales (snd (CountryWiseSalesDistribution sample_pandas sample_no_sales))
   \<and> snd (SalesTrendsOverTime sample_pandas sample_bad_date) = Inl DateParseError
   \<and> (\<exists>out. ProfitAnalysisByCountry sample_pandas sample_no_sales = (sample_no_sales, Inr out)
            \<and> is_grouped sample_pandas sample_no_sales ''Country'' [''Profit''] out)"
proof -
  have a: "list_ex (absent sample_no_sales) [''Date'', ''Sales'']"
    "list_ex (absent sample_no_sales) [''Country'', ''Sales'']"
    "\<not> absent sample_no_sales ''Country''"
    "map_of sample_no_sales ''Profit'' = Some (NumCol [Some 10, Some 3, Some 5])"
    by (simp_all add: absent_def sample_no_sales_def)
  note m = missing_column[where data = sample_no_sales and ps = "[Some 10, Some 3, Some 5]"
      and pyfloat = float_of_digits and corr = id and pd = sample_pandas]
  note b = missing_column[where data = sample_bad_date and ps = "[]"
      and pyfloat = float_of_digits and corr = id and pd = sample_pandas]
  from m a sample_dates_parse(1) b sample_dates_parse(2) show ?thesis
    by blast
qed

theorem missing_sales_bad_date:
  "absent sample_bad_date ''Sales''
   \<and> snd (SalesTrendsOverTime sample_pandas sample_bad_date) = Inl DateParseError
   \<and> \<not> MissingColumn [''Date'', ''Sales''] sample_bad_date
         (snd (SalesTrendsOverTime sample_pandas sample_bad_date))"
  by (simp add: SalesTrendsOverTime_def sample_bad_date_def eval_defs absent_def
      MissingColumn_def)

text \<open>
  Claim C8, at the input where the correlation strategy departs from it. The claim asks
  that Correlation Matrix change only the representation of its seven columns. On a frame
  in which one of them holds numbers already, such as the \<open>Sales\<close> column that the other
  strategies add up, the loop replaces every number of that column by \<open>nan\<close>: the values
  are lost, not represented otherwise. This is the defect of \<open>convert_currency\<close> on
  numeric cells (claim C1), seen on the caller's frame; lemma \<open>Correlation_numeric_column\<close>
  shows it for every frame that has the seven columns. The rest of the claim holds: the
  other strategies return the frame as it was or, for Sales Trend Over Time, with the
  \<open>Date\<close> column replaced by its dates, parsed, and no strategy touches a column other
  than those named (lemmas \<open>strategies_keep_frame\<close>, \<open>SalesTrends_frame_after\<close>,
  \<open>to_datetime_cells\<close> and \<open>convert_columns_result\<close>).
\<close>

theorem correlation_loses_numeric_column:
  "map_of sample_financials ''Sales'' = Some (NumCol [Some 32360, Some 500])
   \<and> map_of (fst (CorrelationAnalysis float_of_digits corr sample_financials)) ''Sales''
       = Some (NumCol [None, None])"
  by (simp add: sample_correlation) (simp add: sample_financials_def)

end
